theory Spec2Isabelle
  imports Complex_Main "HOL-Library.Multiset" "HOL-Library.Sublist"
begin

section \<open>Numbers, strings and time\<close>

text \<open>
  The sources are TypeScript. A JavaScript \<open>number\<close> is modelled as the \<^typ>\<open>real\<close> it
  denotes. Comparisons are exact, as they are on doubles. Sums and quotients are the exact
  ones, except where the rounding of a double decides which branch the code takes: the
  proximity test of \<open>findMatchingPatterns\<close> subtracts with the rounding of doubles (section
  Double arithmetic). Counters that start at zero and are only incremented are \<^typ>\<open>nat\<close>.
  Strings are \<^typ>\<open>string\<close>. A field of a \<open>Partial<T>\<close> object is an \<open>option\<close>:
  \<open>None\<close> is an absent key. Readings of the clock (\<open>Date.now()\<close>) are arguments.
\<close>

section \<open>Configuration (\<open>RTIConfig\<close>, \<open>PERFORMANCE_LIMITS\<close>, \<open>RTIUtils\<close>)\<close>

text \<open>\<open>RTIConfig\<close> is in \<open>src/core/types.ts\<close>, \<open>DEFAULT_CONFIG\<close> and
  \<open>PERFORMANCE_LIMITS\<close> in \<open>src/core/constants.ts\<close>, the class \<open>RTIUtils\<close> in
  \<open>src/core/utils.ts\<close>.\<close>

datatype Sensor = ForceTouch | Pulse | Thermal

datatype InputSurface = HapticResponsiveGlass | FlexibleDisplay | StandardTrackpad

datatype Engine = GenesisEmotionCore | HerResonanceAI | QuantumResonance | Custom

record HardwareConfig =
  sensors :: "Sensor list"
  inputSurface :: InputSurface
  pressureSensitivity :: real
  samplingRate :: real

record SoftwareConfig =
  emotionDecoder :: Engine
  resonanceEngine :: Engine
  realTimeProcessing :: bool
  confidenceThreshold :: real

record PrivacySection =
  localProcessingOnly :: bool
  encryptData :: bool
  dataRetentionDays :: real
  allowAnonymousSharing :: bool

record PerformanceConfig =
  maxLatency :: real
  enableCaching :: bool
  memoryLimit :: real
  adaptiveLearning :: bool

record RTIConfig =
  hardware :: HardwareConfig
  software :: SoftwareConfig
  privacy :: PrivacySection
  performance :: PerformanceConfig

text \<open>
  The override of \<open>mergeConfig\<close> is a \<open>Partial<RTIConfig>\<close>. Its sections are spread
  key by key, so a section of an override is modelled with every key optional: this covers
  the typed callers (all keys present) and the untyped ones.
\<close>

record HardwareOverride =
  opt_sensors :: "Sensor list option"
  opt_inputSurface :: "InputSurface option"
  opt_pressureSensitivity :: "real option"
  opt_samplingRate :: "real option"

record SoftwareOverride =
  opt_emotionDecoder :: "Engine option"
  opt_resonanceEngine :: "Engine option"
  opt_realTimeProcessing :: "bool option"
  opt_confidenceThreshold :: "real option"

record PrivacyOverride =
  opt_localProcessingOnly :: "bool option"
  opt_encryptData :: "bool option"
  opt_dataRetentionDays :: "real option"
  opt_allowAnonymousSharing :: "bool option"

record PerformanceOverride =
  opt_maxLatency :: "real option"
  opt_enableCaching :: "bool option"
  opt_memoryLimit :: "real option"
  opt_adaptiveLearning :: "bool option"

record RTIConfigOverride =
  opt_hardware :: "HardwareOverride option"
  opt_software :: "SoftwareOverride option"
  opt_privacy :: "PrivacyOverride option"
  opt_performance :: "PerformanceOverride option"

definition DEFAULT_CONFIG :: RTIConfig where
  "DEFAULT_CONFIG =
     \<lparr>hardware = \<lparr>sensors = [ForceTouch, Thermal], inputSurface = StandardTrackpad,
                   pressureSensitivity = 0.5, samplingRate = 1000\<rparr>,
      software = \<lparr>emotionDecoder = GenesisEmotionCore, resonanceEngine = HerResonanceAI,
                   realTimeProcessing = True, confidenceThreshold = 0.7\<rparr>,
      privacy = \<lparr>localProcessingOnly = True, encryptData = True, dataRetentionDays = 30,
                  allowAnonymousSharing = False\<rparr>,
      performance = \<lparr>maxLatency = 10, enableCaching = True, memoryLimit = 50,
                      adaptiveLearning = True\<rparr>\<rparr>"

definition MAX_LATENCY_MS :: real where "MAX_LATENCY_MS = 10"
definition MIN_SAMPLING_RATE_HZ :: real where "MIN_SAMPLING_RATE_HZ = 100"
definition MAX_SAMPLING_RATE_HZ :: real where "MAX_SAMPLING_RATE_HZ = 2000"
definition MAX_MEMORY_USAGE_MB :: real where "MAX_MEMORY_USAGE_MB = 100"
definition MAX_CPU_USAGE_PERCENT :: real where "MAX_CPU_USAGE_PERCENT = 20"
definition MIN_CONFIDENCE_THRESHOLD :: real where "MIN_CONFIDENCE_THRESHOLD = 0.5"
definition MAX_CONFIDENCE_THRESHOLD :: real where "MAX_CONFIDENCE_THRESHOLD = 0.95"

subsection \<open>\<open>RTIUtils.mergeConfig\<close>\<close>

text \<open>\<open>spread v o\<close> is the value of one key of \<open>{...a, ...b}\<close>: the key of \<open>b\<close> when
  \<open>b\<close> has it, the key of \<open>a\<close> otherwise.\<close>

definition spread :: "'a \<Rightarrow> 'a option \<Rightarrow> 'a" where
  "spread v ov = (case ov of None \<Rightarrow> v | Some w \<Rightarrow> w)"

definition mergeHardware :: "HardwareConfig \<Rightarrow> HardwareOverride \<Rightarrow> HardwareConfig" where
  "mergeHardware b ov =
     \<lparr>sensors = spread (sensors b) (opt_sensors ov),
      inputSurface = spread (inputSurface b) (opt_inputSurface ov),
      pressureSensitivity = spread (pressureSensitivity b) (opt_pressureSensitivity ov),
      samplingRate = spread (samplingRate b) (opt_samplingRate ov)\<rparr>"

definition mergeSoftware :: "SoftwareConfig \<Rightarrow> SoftwareOverride \<Rightarrow> SoftwareConfig" where
  "mergeSoftware b ov =
     \<lparr>emotionDecoder = spread (emotionDecoder b) (opt_emotionDecoder ov),
      resonanceEngine = spread (resonanceEngine b) (opt_resonanceEngine ov),
      realTimeProcessing = spread (realTimeProcessing b) (opt_realTimeProcessing ov),
      confidenceThreshold = spread (confidenceThreshold b) (opt_confidenceThreshold ov)\<rparr>"

definition mergePrivacy :: "PrivacySection \<Rightarrow> PrivacyOverride \<Rightarrow> PrivacySection" where
  "mergePrivacy b ov =
     \<lparr>localProcessingOnly = spread (localProcessingOnly b) (opt_localProcessingOnly ov),
      encryptData = spread (encryptData b) (opt_encryptData ov),
      dataRetentionDays = spread (dataRetentionDays b) (opt_dataRetentionDays ov),
      allowAnonymousSharing = spread (allowAnonymousSharing b) (opt_allowAnonymousSharing ov)\<rparr>"

definition mergePerformance ::
  "PerformanceConfig \<Rightarrow> PerformanceOverride \<Rightarrow> PerformanceConfig" where
  "mergePerformance b ov =
     \<lparr>maxLatency = spread (maxLatency b) (opt_maxLatency ov),
      enableCaching = spread (enableCaching b) (opt_enableCaching ov),
      memoryLimit = spread (memoryLimit b) (opt_memoryLimit ov),
      adaptiveLearning = spread (adaptiveLearning b) (opt_adaptiveLearning ov)\<rparr>"

text \<open>The four \<open>if (override.section)\<close> blocks run one after the other on \<open>merged\<close>.\<close>

definition mergeConfig :: "RTIConfig \<Rightarrow> RTIConfigOverride option \<Rightarrow> RTIConfig" where
  "mergeConfig base override =
     (case override of
        None \<Rightarrow> base
      | Some ov \<Rightarrow>
          (let merged = base;
               merged = (case opt_hardware ov of None \<Rightarrow> merged
                         | Some h \<Rightarrow> merged\<lparr>hardware := mergeHardware (hardware merged) h\<rparr>);
               merged = (case opt_software ov of None \<Rightarrow> merged
                         | Some s \<Rightarrow> merged\<lparr>software := mergeSoftware (software merged) s\<rparr>);
               merged = (case opt_privacy ov of None \<Rightarrow> merged
                         | Some p \<Rightarrow> merged\<lparr>privacy := mergePrivacy (privacy merged) p\<rparr>);
               merged = (case opt_performance ov of None \<Rightarrow> merged
                         | Some p \<Rightarrow>
                             merged\<lparr>performance := mergePerformance (performance merged) p\<rparr>)
           in merged))"

text \<open>The value the claim gives to one field: the override's when the override supplies the
  section and the field, the base's otherwise.\<close>

definition overridden :: "'s option \<Rightarrow> ('s \<Rightarrow> 'a option) \<Rightarrow> 'a \<Rightarrow> 'a" where
  "overridden sec fld v =
     (case sec of None \<Rightarrow> v | Some s \<Rightarrow> (case fld s of None \<Rightarrow> v | Some w \<Rightarrow> w))"

subsection \<open>\<open>RTIUtils.validateConfig\<close>\<close>

record ValidationResult =
  valid :: bool
  errors :: "string list"

text \<open>\<open>pushIf c m es\<close> is \<open>if (c) es.push(m)\<close>.\<close>

definition pushIf :: "bool \<Rightarrow> string \<Rightarrow> string list \<Rightarrow> string list" where
  "pushIf c m es = (if c then es @ [m] else es)"

definition ERR_SAMPLING_LOW :: string where
  "ERR_SAMPLING_LOW = ''Sampling rate must be at least 100 Hz''"
definition ERR_SAMPLING_HIGH :: string where
  "ERR_SAMPLING_HIGH = ''Sampling rate must not exceed 2000 Hz''"
definition ERR_PRESSURE :: string where
  "ERR_PRESSURE = ''Pressure sensitivity must be between 0.0 and 1.0''"
definition ERR_CONFIDENCE_LOW :: string where
  "ERR_CONFIDENCE_LOW = ''Confidence threshold must be at least 0.5''"
definition ERR_CONFIDENCE_HIGH :: string where
  "ERR_CONFIDENCE_HIGH = ''Confidence threshold must not exceed 0.95''"
definition ERR_LATENCY :: string where
  "ERR_LATENCY = ''Maximum latency must not exceed 10 ms''"
definition ERR_MEMORY :: string where
  "ERR_MEMORY = ''Memory limit must not exceed 100 MB''"

definition validationErrors :: "RTIConfig \<Rightarrow> string list" where
  "validationErrors config =
     (let es = [];
          es = pushIf (samplingRate (hardware config) < MIN_SAMPLING_RATE_HZ) ERR_SAMPLING_LOW es;
          es = pushIf (samplingRate (hardware config) > MAX_SAMPLING_RATE_HZ) ERR_SAMPLING_HIGH es;
          es = pushIf (pressureSensitivity (hardware config) < 0
                       \<or> pressureSensitivity (hardware config) > 1) ERR_PRESSURE es;
          es = pushIf (confidenceThreshold (software config) < MIN_CONFIDENCE_THRESHOLD)
                 ERR_CONFIDENCE_LOW es;
          es = pushIf (confidenceThreshold (software config) > MAX_CONFIDENCE_THRESHOLD)
                 ERR_CONFIDENCE_HIGH es;
          es = pushIf (maxLatency (performance config) > MAX_LATENCY_MS) ERR_LATENCY es;
          es = pushIf (memoryLimit (performance config) > MAX_MEMORY_USAGE_MB) ERR_MEMORY es
      in es)"

definition validateConfig :: "RTIConfig \<Rightarrow> ValidationResult" where
  "validateConfig config =
     (let es = validationErrors config in \<lparr>valid = (length es = 0), errors = es\<rparr>)"

section \<open>The stable sort of \<open>Array.prototype.sort\<close>\<close>

text \<open>
  \<open>xs.sort(cmp)\<close> is a stable sort: \<open>a\<close> comes before \<open>b\<close> when \<open>cmp(a, b) < 0\<close>, and
  elements that compare equal keep their order. \<open>sortBy\<close> is the insertion sort with
  this result for a consistent comparator.
\<close>

fun insertBy :: "('a \<Rightarrow> 'a \<Rightarrow> real) \<Rightarrow> 'a \<Rightarrow> 'a list \<Rightarrow> 'a list" where
  "insertBy cmp x [] = [x]"
| "insertBy cmp x (y # ys) = (if cmp x y \<le> 0 then x # y # ys else y # insertBy cmp x ys)"

definition sortBy :: "('a \<Rightarrow> 'a \<Rightarrow> real) \<Rightarrow> 'a list \<Rightarrow> 'a list" where
  "sortBy cmp xs = foldr (insertBy cmp) xs []"

section \<open>Double arithmetic\<close>

text \<open>
  A JavaScript number is an IEEE 754 double: a multiple of \<open>2^-k\<close> with a magnitude below
  \<open>2^53\<close> when scaled by \<open>2^k\<close>, where \<open>k\<close> is at most 1074. An arithmetic operation gives
  the double nearest to the exact result, and of two nearest doubles the one with an even last
  digit.

  \<open>roundHalfEven y\<close> is the integer nearest to \<open>y\<close>, the even one of two.
\<close>

definition roundHalfEven :: "real \<Rightarrow> int" where
  "roundHalfEven y =
     (let f = \<lfloor>y\<rfloor>; r = y - of_int f
      in if r < 1 / 2 then f else if r > 1 / 2 then f + 1 else if even f then f else f + 1)"

text \<open>
  \<open>binadeScale a\<close>, for \<open>0 \<le> a < 2^53\<close>, is the least \<open>k\<close> with \<open>2^52 \<le> a * 2^k\<close>, and
  1074 when there is none up to 1074 (zero and the subnormal range): the doubles around
  \<open>a\<close> are the multiples of \<open>2^-k\<close>. The search has the 1074 steps it can need.
\<close>

fun scaleFrom :: "nat \<Rightarrow> nat \<Rightarrow> real \<Rightarrow> nat" where
  "scaleFrom 0 k a = k"
| "scaleFrom (Suc n) k a = (if a * 2 ^ k < 2 ^ 52 then scaleFrom n (Suc k) a else k)"

definition binadeScale :: "real \<Rightarrow> nat" where
  "binadeScale a = scaleFrom 1074 0 a"

text \<open>
  \<open>roundDouble x\<close> is the double nearest to \<open>x\<close>, for a magnitude below \<open>2^53\<close>. A larger
  magnitude is left as it is: its double is at least \<open>2^53\<close> too, or infinite, and nothing
  here tells such values apart. A decimal literal \<open>c\<close> of the source denotes
  \<open>roundDouble c\<close>, and \<open>dsub a b\<close> is the \<open>a - b\<close> of the source on two doubles.
\<close>

definition roundDouble :: "real \<Rightarrow> real" where
  "roundDouble x =
     (if \<bar>x\<bar> \<ge> 2 ^ 53 then x
      else (let k = binadeScale \<bar>x\<bar>
            in sgn x * of_int (roundHalfEven (\<bar>x\<bar> * 2 ^ k)) / 2 ^ k))"

definition dsub :: "real \<Rightarrow> real \<Rightarrow> real" where
  "dsub a b = roundDouble (a - b)"

section \<open>Genesis profile (class \<open>GenesisProfile\<close>)\<close>

text \<open>The interfaces and the class of the genesis profile follow the constants in
  \<open>src/core/constants.ts\<close>.\<close>

record PatternCharacteristics =
  primary :: string
  secondary :: "string option"
  intensityRange :: "real \<times> real"
  pressureSensitivity :: real
  thermalSignature :: real
  pulseCorrelation :: "real option"

text \<open>The field \<open>id\<close> of a pattern is \<open>pattern_id\<close> here.\<close>

record EmotionalPattern =
  pattern_id :: string
  name :: string
  characteristics :: PatternCharacteristics
  frequency :: real
  confidence :: real
  lastObserved :: real
  createdAt :: real

record Sensitivity =
  pressure :: real
  thermal :: real
  pulse :: real

datatype ResponseSpeed = Slow | Normal | Fast

record ResonanceSettings =
  preferredModes :: "string list"
  formPreferences :: "string list"
  sensitivity :: Sensitivity
  responseSpeed :: ResponseSpeed
  hapticFeedback :: bool

record PrivacyConfig =
  localProcessingOnly :: bool
  encryptData :: bool
  retentionDays :: real
  allowAnonymousSharing :: bool
  sharePatterns :: bool
  sharePreferences :: bool

text \<open>The fields \<open>type\<close>, \<open>value\<close> and \<open>timestamp\<close> of an adjustment.\<close>

record Adjustment =
  adj_type :: string
  adj_value :: real
  adj_timestamp :: real

record AdaptiveData =
  learningRate :: real
  accuracy :: real
  trainingSamples :: real
  lastTraining :: real
  adjustments :: "Adjustment list"

record GenesisProfile =
  userId :: string
  displayName :: string
  emotionalFingerprint :: "EmotionalPattern list"
  resonancePreferences :: ResonanceSettings
  privacySettings :: PrivacyConfig
  learningData :: AdaptiveData
  createdAt :: real
  updatedAt :: real
  version :: string

text \<open>\<open>Partial<GenesisProfile>\<close>: what \<open>exportProfile\<close> returns and \<open>importProfile\<close> takes.\<close>

record PartialGenesisProfile =
  opt_userId :: "string option"
  opt_displayName :: "string option"
  opt_emotionalFingerprint :: "EmotionalPattern list option"
  opt_resonancePreferences :: "ResonanceSettings option"
  opt_privacySettings :: "PrivacyConfig option"
  opt_learningData :: "AdaptiveData option"
  opt_createdAt :: "real option"
  opt_updatedAt :: "real option"
  opt_version :: "string option"

text \<open>\<open>createDefaultProfile\<close> reads the clock three times in a row; \<open>now\<close> is that reading.\<close>

definition createDefaultProfile :: "string \<Rightarrow> real \<Rightarrow> GenesisProfile" where
  "createDefaultProfile uid now =
     \<lparr>userId = uid,
      displayName = ''User_'' @ take 8 uid,
      emotionalFingerprint = [],
      resonancePreferences =
        \<lparr>preferredModes = [''creation'', ''alteration''],
         formPreferences = [''organic'', ''fluid''],
         sensitivity = \<lparr>pressure = 0.5, thermal = 0.5, pulse = 0.5\<rparr>,
         responseSpeed = Normal,
         hapticFeedback = True\<rparr>,
      privacySettings =
        \<lparr>localProcessingOnly = True, encryptData = True, retentionDays = 30,
         allowAnonymousSharing = False, sharePatterns = False, sharePreferences = False\<rparr>,
      learningData =
        \<lparr>learningRate = 0.1, accuracy = 0.0, trainingSamples = 0, lastTraining = now,
         adjustments = []\<rparr>,
      createdAt = now,
      updatedAt = now,
      version = ''1.0.0''\<rparr>"

text \<open>
  \<open>saveProfile\<close> stamps \<open>updatedAt\<close> first, then serialises the profile and writes it to the
  storage backend inside a \<open>try\<close>; neither the write nor its failure changes \<open>this.profile\<close>.
  The model keeps the effect on the profile.
\<close>

definition saveProfile :: "GenesisProfile \<Rightarrow> real \<Rightarrow> GenesisProfile" where
  "saveProfile p now = p\<lparr>updatedAt := now\<rparr>"

subsection \<open>\<open>findMatchingPatterns\<close>\<close>

record MatchQuery =
  primary :: string
  intensity :: real
  pressure :: real
  thermal :: real

text \<open>The literal \<open>0.2\<close> of the two proximity tests, as the double it denotes.\<close>

definition PROXIMITY :: real where
  "PROXIMITY = roundDouble 0.2"

text \<open>The callback of the \<open>filter\<close>. \<open>Math.abs\<close> and the comparisons are exact on doubles;
  the two subtractions round.\<close>

definition matchesPattern :: "MatchQuery \<Rightarrow> EmotionalPattern \<Rightarrow> bool" where
  "matchesPattern q pattern =
     (let c = characteristics pattern;
          matchesPrimary = (PatternCharacteristics.primary c = MatchQuery.primary q);
          matchesIntensity = (intensity q \<ge> fst (intensityRange c)
                              \<and> intensity q \<le> snd (intensityRange c));
          matchesPressure = (\<bar>dsub (pressureSensitivity c) (MatchQuery.pressure q)\<bar> < PROXIMITY);
          matchesThermal = (\<bar>dsub (thermalSignature c) (MatchQuery.thermal q)\<bar> < PROXIMITY)
      in matchesPrimary \<and> matchesIntensity \<and> matchesPressure \<and> matchesThermal)"

text \<open>The comparator of the \<open>sort\<close>: \<open>(a, b) => b.confidence - a.confidence\<close>. The sort
  reads the sign of the difference only, and the rounded difference of two doubles has the
  sign of the exact one.\<close>

definition byConfidence :: "EmotionalPattern \<Rightarrow> EmotionalPattern \<Rightarrow> real" where
  "byConfidence a b = confidence b - confidence a"

text \<open>
  The method returns a list and is given here with the profile it leaves behind:
  \<open>filter\<close> builds a new array, and \<open>sort\<close> sorts that array in place, so the stored
  fingerprint is not written.
\<close>

definition findMatchingPatterns ::
  "GenesisProfile \<Rightarrow> MatchQuery \<Rightarrow> GenesisProfile \<times> EmotionalPattern list" where
  "findMatchingPatterns p q =
     (p, sortBy byConfidence (filter (matchesPattern q) (emotionalFingerprint p)))"

subsection \<open>\<open>exportProfile\<close> and \<open>importProfile\<close>\<close>

definition exportProfile :: "GenesisProfile \<Rightarrow> bool \<Rightarrow> PartialGenesisProfile" where
  "exportProfile p includePrivate =
     (let exportData =
            \<lparr>opt_userId = Some (userId p),
             opt_displayName = Some (displayName p),
             opt_emotionalFingerprint = None,
             opt_resonancePreferences = None,
             opt_privacySettings = None,
             opt_learningData = None,
             opt_createdAt = Some (GenesisProfile.createdAt p),
             opt_updatedAt = Some (updatedAt p),
             opt_version = Some (version p)\<rparr>;
          exportData =
            (if includePrivate \<or> sharePatterns (privacySettings p)
             then exportData\<lparr>opt_emotionalFingerprint := Some (emotionalFingerprint p)\<rparr>
             else exportData);
          exportData =
            (if includePrivate \<or> sharePreferences (privacySettings p)
             then exportData\<lparr>opt_resonancePreferences := Some (resonancePreferences p)\<rparr>
             else exportData);
          exportData =
            (if includePrivate
             then exportData\<lparr>opt_privacySettings := Some (privacySettings p),
                             opt_learningData := Some (learningData p)\<rparr>
             else exportData)
      in exportData)"

text \<open>\<open>overlay p d\<close> is \<open>{ ...p, ...d }\<close>.\<close>

definition overlay :: "GenesisProfile \<Rightarrow> PartialGenesisProfile \<Rightarrow> GenesisProfile" where
  "overlay p d =
     \<lparr>userId = spread (userId p) (opt_userId d),
      displayName = spread (displayName p) (opt_displayName d),
      emotionalFingerprint = spread (emotionalFingerprint p) (opt_emotionalFingerprint d),
      resonancePreferences = spread (resonancePreferences p) (opt_resonancePreferences d),
      privacySettings = spread (privacySettings p) (opt_privacySettings d),
      learningData = spread (learningData p) (opt_learningData d),
      createdAt = spread (GenesisProfile.createdAt p) (opt_createdAt d),
      updatedAt = spread (updatedAt p) (opt_updatedAt d),
      version = spread (version p) (opt_version d)\<rparr>"

text \<open>
  \<open>importProfile p d merge now saved\<close>: \<open>now\<close> is the clock when the default profile of the
  other branch is built, \<open>saved\<close> the clock in the \<open>saveProfile\<close> that ends the method.
\<close>

definition importProfile ::
  "GenesisProfile \<Rightarrow> PartialGenesisProfile \<Rightarrow> bool \<Rightarrow> real \<Rightarrow> real \<Rightarrow> GenesisProfile" where
  "importProfile p d merge now saved =
     (let p' = (if merge
                then (overlay p d)\<lparr>userId := userId p,
                                   GenesisProfile.createdAt := GenesisProfile.createdAt p\<rparr>
                else (overlay (createDefaultProfile (userId p) now) d)\<lparr>userId := userId p\<rparr>)
      in saveProfile p' saved)"

section \<open>The orchestrator (class \<open>RTI\<close>)\<close>

text \<open>The class \<open>RTI\<close> follows \<open>RTIUtils\<close> in \<open>src/core/utils.ts\<close>; the error codes
  and the status values are in \<open>src/core/constants.ts\<close>.\<close>

datatype SystemStatus =
  INITIALIZING | READY | PROCESSING | ERROR | DISABLED | CONNECTED | DISCONNECTED

datatype Severity = Low | Medium | High | Critical

definition HARDWARE_NOT_SUPPORTED :: string where
  "HARDWARE_NOT_SUPPORTED = ''HARDWARE_NOT_SUPPORTED''"
definition SENSOR_DISCONNECTED :: string where
  "SENSOR_DISCONNECTED = ''SENSOR_DISCONNECTED''"
definition EMOTION_DECODER_ERROR :: string where
  "EMOTION_DECODER_ERROR = ''EMOTION_DECODER_ERROR''"
definition RESONANCE_ENGINE_ERROR :: string where
  "RESONANCE_ENGINE_ERROR = ''RESONANCE_ENGINE_ERROR''"
definition LATENCY_EXCEEDED :: string where
  "LATENCY_EXCEEDED = ''LATENCY_EXCEEDED''"
definition MEMORY_LIMIT_EXCEEDED :: string where
  "MEMORY_LIMIT_EXCEEDED = ''MEMORY_LIMIT_EXCEEDED''"

text \<open>All the values of \<open>ERROR_CODES\<close>, in the order of the source.\<close>

definition ERROR_CODES :: "string list" where
  "ERROR_CODES =
     [HARDWARE_NOT_SUPPORTED, SENSOR_DISCONNECTED, ''PRESSURE_SENSOR_ERROR'',
      ''THERMAL_SENSOR_ERROR'', EMOTION_DECODER_ERROR, RESONANCE_ENGINE_ERROR,
      ''DIMENSIONAL_TRANSLATOR_ERROR'', ''INVALID_CONFIG'', ''MISSING_REQUIRED_SENSOR'',
      ''INVALID_SAMPLING_RATE'', LATENCY_EXCEEDED, MEMORY_LIMIT_EXCEEDED,
      ''CPU_LIMIT_EXCEEDED'', ''ENCRYPTION_FAILED'', ''DATA_ACCESS_DENIED'',
      ''PRIVACY_VIOLATION'']"

record PerformanceMetrics =
  lastLatency :: real
  averageLatency :: real
  latencySamples :: "real list"
  memoryUsage :: real
  cpuUsage :: real

record ModeEntry =
  mode :: string
  count :: nat
  percentage :: real

text \<open>
  What \<open>emit\<close> publishes is appended to a log, without the timestamp of the event. The
  listeners themselves are outside the model, but not their number for the event type
  \<open>error\<close>: the \<open>emit\<close> of an \<open>EventEmitter\<close> throws when an \<open>error\<close> event is emitted
  and no listener is registered for it. A throughput is \<open>None\<close> when the quotient of the
  source is not finite (no time elapsed).
\<close>

datatype RTIException = ERR_UNHANDLED_ERROR

datatype Emitted =
  ErrorEvent string string Severity
| StatusChange SystemStatus
| PerformanceUpdate real "real option"

text \<open>
  The fields of the instance that the modelled methods read or write: \<open>status\<close> is
  \<open>this.status.status\<close>, \<open>statusLatency\<close> and \<open>statusThroughput\<close> are
  \<open>this.status.performance.latency\<close> and \<open>.throughput\<close>, \<open>totalTouches\<close> and
  \<open>topModes\<close> are those of \<open>this.stats\<close>. \<open>errorListeners\<close> is the number of listeners
  registered on the instance for the event type \<open>error\<close>.
\<close>

record RTI =
  status :: SystemStatus
  statusLatency :: real
  statusThroughput :: "real option"
  totalTouches :: nat
  topModes :: "ModeEntry list"
  performanceMetrics :: PerformanceMetrics
  emitted :: "Emitted list"
  errorListeners :: nat

text \<open>The state the constructor builds before it starts the components. The constructor
  registers listeners on the four components (\<open>setupEventListeners\<close>) and none on the
  instance.\<close>

definition initialRTI :: RTI where
  "initialRTI =
     \<lparr>status = INITIALIZING,
      statusLatency = 0,
      statusThroughput = Some 0,
      totalTouches = 0,
      topModes = [],
      performanceMetrics =
        \<lparr>lastLatency = 0, averageLatency = 0, latencySamples = [], memoryUsage = 0,
         cpuUsage = 0\<rparr>,
      emitted = [],
      errorListeners = 0\<rparr>"

text \<open>\<open>rti.on('error', listener)\<close>, called by the application.\<close>

definition onError :: "RTI \<Rightarrow> RTI" where
  "onError s = s\<lparr>errorListeners := Suc (errorListeners s)\<rparr>"

text \<open>\<open>this.emit(type, event)\<close> for a type other than \<open>error\<close>: it returns, with or without
  listeners.\<close>

definition emit :: "Emitted \<Rightarrow> RTI \<Rightarrow> RTI" where
  "emit e s = s\<lparr>emitted := emitted s @ [e]\<rparr>"

text \<open>\<open>this.emit('error', event)\<close>: it throws when the instance has no listener for
  \<open>error\<close>, and nothing has been written then.\<close>

definition emitError :: "Emitted \<Rightarrow> RTI \<Rightarrow> RTIException + RTI" where
  "emitError e s = (if errorListeners s = 0 then Inl ERR_UNHANDLED_ERROR else Inr (emit e s))"

definition updateStatus :: "SystemStatus \<Rightarrow> RTI \<Rightarrow> RTI" where
  "updateStatus st s = emit (StatusChange st) (s\<lparr>status := st\<rparr>)"

subsection \<open>\<open>updatePerformanceMetrics\<close>\<close>

text \<open>\<open>elapsed\<close> is \<open>Date.now() - this.sessionStartTime\<close>.\<close>

definition updatePerformanceMetrics :: "real \<Rightarrow> real \<Rightarrow> RTI \<Rightarrow> RTI" where
  "updatePerformanceMetrics latency elapsed s =
     (let pm = performanceMetrics s;
          pm = pm\<lparr>lastLatency := latency\<rparr>;
          pm = pm\<lparr>latencySamples := latencySamples pm @ [latency]\<rparr>;
          pm = (if length (latencySamples pm) > 100
                then pm\<lparr>latencySamples := tl (latencySamples pm)\<rparr> else pm);
          pm = pm\<lparr>averageLatency :=
                    foldl (\<lambda>a b. a + b) 0 (latencySamples pm) / real (length (latencySamples pm))\<rparr>;
          tp = (if elapsed = 0 then None else Some (real (totalTouches s) / elapsed * 1000));
          s = s\<lparr>performanceMetrics := pm, statusLatency := averageLatency pm,
                statusThroughput := tp\<rparr>
      in emit (PerformanceUpdate (averageLatency pm) tp) s)"

text \<open>Pushing a sequence of measurements, each with the time elapsed at its call.\<close>

definition pushAll :: "(real \<times> real) list \<Rightarrow> RTI \<Rightarrow> RTI" where
  "pushAll ms s = foldl (\<lambda>s (latency, elapsed). updatePerformanceMetrics latency elapsed s) s ms"

subsection \<open>\<open>updateModeStatistics\<close>\<close>

text \<open>\<open>existingMode.count++\<close> on the entry that \<open>find\<close> returns: the first with the mode.\<close>

fun incrementFirst :: "string \<Rightarrow> ModeEntry list \<Rightarrow> ModeEntry list" where
  "incrementFirst m [] = []"
| "incrementFirst m (e # es) =
     (if mode e = m then e\<lparr>count := count e + 1\<rparr> # es else e # incrementFirst m es)"

definition byCount :: "ModeEntry \<Rightarrow> ModeEntry \<Rightarrow> real" where
  "byCount a b = real (count b) - real (count a)"

definition updateTopModes :: "string \<Rightarrow> ModeEntry list \<Rightarrow> ModeEntry list" where
  "updateTopModes m tm =
     (let tm = (case find (\<lambda>e. mode e = m) tm of
                  Some existingMode \<Rightarrow> incrementFirst m tm
                | None \<Rightarrow> tm @ [\<lparr>mode = m, count = 1, percentage = 0\<rparr>]);
          total = foldl (\<lambda>sum e. sum + count e) 0 tm;
          tm = map (\<lambda>e. e\<lparr>percentage := (real (count e) / real total) * 100\<rparr>) tm
      in sortBy byCount tm)"

definition updateModeStatistics :: "string \<Rightarrow> RTI \<Rightarrow> RTI" where
  "updateModeStatistics m s = s\<lparr>topModes := updateTopModes m (topModes s)\<rparr>"

text \<open>The sum of the percentage fields of a table.\<close>

definition percentageSum :: "ModeEntry list \<Rightarrow> real" where
  "percentageSum tm = sum_list (map percentage tm)"

subsection \<open>\<open>determineErrorSeverity\<close> and \<open>handleError\<close>\<close>

text \<open>\<open>includesStr s sub\<close> is \<open>s.includes(sub)\<close>: \<open>sub\<close> occurs in \<open>s\<close> at some position.\<close>

fun includesStr :: "string \<Rightarrow> string \<Rightarrow> bool" where
  "includesStr [] sub = (sub = [])"
| "includesStr (c # cs) sub = (prefix sub (c # cs) \<or> includesStr cs sub)"

definition criticalErrors :: "string list" where
  "criticalErrors = [HARDWARE_NOT_SUPPORTED, EMOTION_DECODER_ERROR, RESONANCE_ENGINE_ERROR]"

definition highErrors :: "string list" where
  "highErrors = [SENSOR_DISCONNECTED, LATENCY_EXCEEDED, MEMORY_LIMIT_EXCEEDED]"

definition determineErrorSeverity :: "string \<Rightarrow> Severity" where
  "determineErrorSeverity code =
     (if code \<in> set criticalErrors then Critical
      else if code \<in> set highErrors then High
      else if includesStr code ''PERFORMANCE'' then Medium
      else Low)"

text \<open>The result is the exception that leaves the method, or the instance after it. The
  \<open>emit\<close> comes before the update of the status, and the method has no \<open>try\<close>.\<close>

definition handleError :: "string \<Rightarrow> string \<Rightarrow> RTI \<Rightarrow> RTIException + RTI" where
  "handleError code message s =
     (let severity = determineErrorSeverity code
      in case emitError (ErrorEvent code message severity) s of
           Inl exn \<Rightarrow> Inl exn
         | Inr s \<Rightarrow> Inr (if severity = Critical then updateStatus ERROR s else s))"

section \<open>Resonance mapper (\<open>RESONANCE_MAPPINGS\<close>, \<open>PRESSURE_THRESHOLDS\<close>)\<close>

datatype EmotionType =
  JOY | CALM | LOVE | EXCITEMENT | GRATITUDE | COMPASSION
| FOCUS | DETERMINATION | CONCENTRATION | DISCIPLINE
| ANGER | FRUSTRATION | ANXIETY | SADNESS | FEAR
| CURIOSITY | WONDER | CONTEMPLATION | INSPIRATION

fun EMOTION_TYPES :: "EmotionType \<Rightarrow> string" where
  "EMOTION_TYPES JOY = ''joy''"
| "EMOTION_TYPES CALM = ''calm''"
| "EMOTION_TYPES LOVE = ''love''"
| "EMOTION_TYPES EXCITEMENT = ''excitement''"
| "EMOTION_TYPES GRATITUDE = ''gratitude''"
| "EMOTION_TYPES COMPASSION = ''compassion''"
| "EMOTION_TYPES FOCUS = ''focus''"
| "EMOTION_TYPES DETERMINATION = ''determination''"
| "EMOTION_TYPES CONCENTRATION = ''concentration''"
| "EMOTION_TYPES DISCIPLINE = ''discipline''"
| "EMOTION_TYPES ANGER = ''anger''"
| "EMOTION_TYPES FRUSTRATION = ''frustration''"
| "EMOTION_TYPES ANXIETY = ''anxiety''"
| "EMOTION_TYPES SADNESS = ''sadness''"
| "EMOTION_TYPES FEAR = ''fear''"
| "EMOTION_TYPES CURIOSITY = ''curiosity''"
| "EMOTION_TYPES WONDER = ''wonder''"
| "EMOTION_TYPES CONTEMPLATION = ''contemplation''"
| "EMOTION_TYPES INSPIRATION = ''inspiration''"

datatype InteractionMode = CREATION | ALTERATION | DESTRUCTION | BLESSING

fun INTERACTION_MODES :: "InteractionMode \<Rightarrow> string" where
  "INTERACTION_MODES CREATION = ''creation''"
| "INTERACTION_MODES ALTERATION = ''alteration''"
| "INTERACTION_MODES DESTRUCTION = ''destruction''"
| "INTERACTION_MODES BLESSING = ''blessing''"

datatype FormType =
  ORGANIC | FLUID | NATURAL | GROWING
| GEOMETRIC | CRYSTALLINE | PRECISE | STRUCTURED
| ANIMATED | RESPONSIVE | INTERACTIVE
| ETHEREAL | GLOWING | TRANSLUCENT | IMMATERIAL

fun FORM_TYPES :: "FormType \<Rightarrow> string" where
  "FORM_TYPES ORGANIC = ''organic''"
| "FORM_TYPES FLUID = ''fluid''"
| "FORM_TYPES NATURAL = ''natural''"
| "FORM_TYPES GROWING = ''growing''"
| "FORM_TYPES GEOMETRIC = ''geometric''"
| "FORM_TYPES CRYSTALLINE = ''crystalline''"
| "FORM_TYPES PRECISE = ''precise''"
| "FORM_TYPES STRUCTURED = ''structured''"
| "FORM_TYPES ANIMATED = ''animated''"
| "FORM_TYPES RESPONSIVE = ''responsive''"
| "FORM_TYPES INTERACTIVE = ''interactive''"
| "FORM_TYPES ETHEREAL = ''ethereal''"
| "FORM_TYPES GLOWING = ''glowing''"
| "FORM_TYPES TRANSLUCENT = ''translucent''"
| "FORM_TYPES IMMATERIAL = ''immaterial''"

datatype PressureBand = VERY_LIGHT | LIGHT | MEDIUM | HEAVY | VERY_HEAVY | MAXIMUM

fun PRESSURE_THRESHOLDS :: "PressureBand \<Rightarrow> real" where
  "PRESSURE_THRESHOLDS VERY_LIGHT = 0.05"
| "PRESSURE_THRESHOLDS LIGHT = 0.2"
| "PRESSURE_THRESHOLDS MEDIUM = 0.5"
| "PRESSURE_THRESHOLDS HEAVY = 0.7"
| "PRESSURE_THRESHOLDS VERY_HEAVY = 0.9"
| "PRESSURE_THRESHOLDS MAXIMUM = 1.0"

text \<open>An entry of \<open>RESONANCE_MAPPINGS\<close>.\<close>

record ResonanceAction =
  mode :: InteractionMode
  form :: FormType
  characteristics :: "string list"

text \<open>The table of the source, with its computed keys, in the order of the source.\<close>

definition RESONANCE_MAPPINGS :: "(string \<times> ResonanceAction) list" where
  "RESONANCE_MAPPINGS =
     [(EMOTION_TYPES JOY @ ''_'' @ EMOTION_TYPES CALM @ ''_LIGHT'',
       \<lparr>mode = CREATION, form = ORGANIC,
        characteristics = [''flowing'', ''natural'', ''smooth'']\<rparr>),
      (EMOTION_TYPES LOVE @ ''_VERY_LIGHT'',
       \<lparr>mode = CREATION, form = GROWING,
        characteristics = [''gentle'', ''nurturing'', ''expanding'']\<rparr>),
      (EMOTION_TYPES FOCUS @ ''_'' @ EMOTION_TYPES DETERMINATION @ ''_MEDIUM'',
       \<lparr>mode = ALTERATION, form = PRECISE,
        characteristics = [''refined'', ''accurate'', ''controlled'']\<rparr>),
      (EMOTION_TYPES CONCENTRATION @ ''_MEDIUM'',
       \<lparr>mode = ALTERATION, form = STRUCTURED,
        characteristics = [''organized'', ''systematic'', ''ordered'']\<rparr>),
      (EMOTION_TYPES ANGER @ ''_'' @ EMOTION_TYPES FRUSTRATION @ ''_HEAVY'',
       \<lparr>mode = DESTRUCTION, form = GEOMETRIC,
        characteristics = [''sharp'', ''fractured'', ''broken'']\<rparr>),
      (EMOTION_TYPES ANXIETY @ ''_HEAVY'',
       \<lparr>mode = DESTRUCTION, form = CRYSTALLINE,
        characteristics = [''fragile'', ''shattered'', ''dispersed'']\<rparr>),
      (EMOTION_TYPES COMPASSION @ ''_VERY_LIGHT'',
       \<lparr>mode = BLESSING, form = ETHEREAL,
        characteristics = [''glowing'', ''radiant'', ''transcendent'']\<rparr>),
      (EMOTION_TYPES GRATITUDE @ ''_LIGHT'',
       \<lparr>mode = BLESSING, form = GLOWING,
        characteristics = [''warm'', ''luminous'', ''harmonious'']\<rparr>)]"

subsection \<open>The mapper\<close>

text \<open>
  Modelled from the spec: the mapper itself (the class \<open>ResonanceEngine\<close> that the
  orchestrator calls, and the types of \<open>emotion/types\<close> and \<open>resonance/types\<close>) is not
  among the sources; only its rule table and the thresholds above are. The definitions of
  this subsection follow sections 3, 4.1 and 8 of the specification.

  An emotional state has a primary emotion tag, an intensity, a confidence, a timestamp and
  an optional secondary tag.
\<close>

record EmotionalState =
  primary :: EmotionType
  intensity :: real
  confidence :: real
  timestamp :: real
  secondary :: "EmotionType option"

text \<open>
  Modelled from the spec: a rule is keyed by a structured predicate, the primary emotion or
  emotions it names and a pressure band. \<open>ruleKey\<close> is the key that the table of the source
  has for the rule.
\<close>

record ResonanceRule =
  ruleEmotions :: "EmotionType list"
  ruleBand :: PressureBand
  ruleAction :: ResonanceAction

text \<open>Modelled from the spec: the name of a band, as the keys of the table spell it.\<close>

fun bandName :: "PressureBand \<Rightarrow> string" where
  "bandName VERY_LIGHT = ''VERY_LIGHT''"
| "bandName LIGHT = ''LIGHT''"
| "bandName MEDIUM = ''MEDIUM''"
| "bandName HEAVY = ''HEAVY''"
| "bandName VERY_HEAVY = ''VERY_HEAVY''"
| "bandName MAXIMUM = ''MAXIMUM''"

text \<open>Modelled from the spec: the key of a rule, the names of its emotions and of its
  band joined by underscores.\<close>

definition ruleKey :: "ResonanceRule \<Rightarrow> string" where
  "ruleKey r = concat (map (\<lambda>e. EMOTION_TYPES e @ ''_'') (ruleEmotions r)) @ bandName (ruleBand r)"

text \<open>Modelled from the spec: the rule table, one rule for each entry of
  \<open>RESONANCE_MAPPINGS\<close>, in the order of the source.\<close>

definition resonanceRules :: "ResonanceRule list" where
  "resonanceRules =
     [\<lparr>ruleEmotions = [JOY, CALM], ruleBand = LIGHT,
       ruleAction = \<lparr>mode = CREATION, form = ORGANIC,
                     characteristics = [''flowing'', ''natural'', ''smooth'']\<rparr>\<rparr>,
      \<lparr>ruleEmotions = [LOVE], ruleBand = VERY_LIGHT,
       ruleAction = \<lparr>mode = CREATION, form = GROWING,
                     characteristics = [''gentle'', ''nurturing'', ''expanding'']\<rparr>\<rparr>,
      \<lparr>ruleEmotions = [FOCUS, DETERMINATION], ruleBand = MEDIUM,
       ruleAction = \<lparr>mode = ALTERATION, form = PRECISE,
                     characteristics = [''refined'', ''accurate'', ''controlled'']\<rparr>\<rparr>,
      \<lparr>ruleEmotions = [CONCENTRATION], ruleBand = MEDIUM,
       ruleAction = \<lparr>mode = ALTERATION, form = STRUCTURED,
                     characteristics = [''organized'', ''systematic'', ''ordered'']\<rparr>\<rparr>,
      \<lparr>ruleEmotions = [ANGER, FRUSTRATION], ruleBand = HEAVY,
       ruleAction = \<lparr>mode = DESTRUCTION, form = GEOMETRIC,
                     characteristics = [''sharp'', ''fractured'', ''broken'']\<rparr>\<rparr>,
      \<lparr>ruleEmotions = [ANXIETY], ruleBand = HEAVY,
       ruleAction = \<lparr>mode = DESTRUCTION, form = CRYSTALLINE,
                     characteristics = [''fragile'', ''shattered'', ''dispersed'']\<rparr>\<rparr>,
      \<lparr>ruleEmotions = [COMPASSION], ruleBand = VERY_LIGHT,
       ruleAction = \<lparr>mode = BLESSING, form = ETHEREAL,
                     characteristics = [''glowing'', ''radiant'', ''transcendent'']\<rparr>\<rparr>,
      \<lparr>ruleEmotions = [GRATITUDE], ruleBand = LIGHT,
       ruleAction = \<lparr>mode = BLESSING, form = GLOWING,
                     characteristics = [''warm'', ''luminous'', ''harmonious'']\<rparr>\<rparr>]"

text \<open>
  Modelled from the spec: the bands are ordered, non-overlapping, named ranges derived from
  the fixed thresholds, with the half-open convention the specification suggests: a band
  starts at its threshold and ends before the next one, which is the reading under which a
  pressure of 0.15 is very light and one of 0.8 is heavy, as in the scenarios of section 8.
  A pressure under the lowest threshold is in no band.
\<close>

definition pressureBand :: "real \<Rightarrow> PressureBand option" where
  "pressureBand p =
     (if p \<ge> PRESSURE_THRESHOLDS MAXIMUM then Some MAXIMUM
      else if p \<ge> PRESSURE_THRESHOLDS VERY_HEAVY then Some VERY_HEAVY
      else if p \<ge> PRESSURE_THRESHOLDS HEAVY then Some HEAVY
      else if p \<ge> PRESSURE_THRESHOLDS MEDIUM then Some MEDIUM
      else if p \<ge> PRESSURE_THRESHOLDS LIGHT then Some LIGHT
      else if p \<ge> PRESSURE_THRESHOLDS VERY_LIGHT then Some VERY_LIGHT
      else None)"

text \<open>Modelled from the spec: a rule matches a state and a pressure when it names the
  primary emotion of the state, alone or as one of its two emotions, and its band is the
  band of the pressure.\<close>

definition ruleMatches :: "EmotionalState \<Rightarrow> real \<Rightarrow> ResonanceRule \<Rightarrow> bool" where
  "ruleMatches st p r =
     (EmotionalState.primary st \<in> set (ruleEmotions r) \<and> pressureBand p = Some (ruleBand r))"

text \<open>Modelled from the spec: the declared specificity order, in which the rules that
  name two emotions come before the rules that name one.\<close>

definition bySpecificity :: "ResonanceRule \<Rightarrow> ResonanceRule \<Rightarrow> real" where
  "bySpecificity a b = real (length (ruleEmotions b)) - real (length (ruleEmotions a))"

text \<open>Modelled from the spec: the documented neutral fallback action.\<close>

definition fallbackAction :: ResonanceAction where
  "fallbackAction = \<lparr>mode = ALTERATION, form = STRUCTURED, characteristics = []\<rparr>"

text \<open>Modelled from the spec: \<open>map(emotionalState, pressure)\<close> iterates the rules in
  specificity order, the first match wins, and no match gives the fallback.\<close>

definition map_resonance :: "EmotionalState \<Rightarrow> real \<Rightarrow> ResonanceAction" where
  "map_resonance st p =
     (case find (ruleMatches st p) (sortBy bySpecificity resonanceRules) of
        Some r \<Rightarrow> ruleAction r
      | None \<Rightarrow> fallbackAction)"

section \<open>Example values\<close>

definition examplePattern :: EmotionalPattern where
  "examplePattern =
     \<lparr>pattern_id = ''p-1'', name = ''calm touch'',
      characteristics =
        \<lparr>PatternCharacteristics.primary = ''calm'', secondary = None,
         intensityRange = (0.2, 0.6), pressureSensitivity = 0.4, thermalSignature = 0.5,
         pulseCorrelation = None\<rparr>,
      frequency = 3, confidence = 0.9, lastObserved = 10, createdAt = 5\<rparr>"

definition exampleProfile :: GenesisProfile where
  "exampleProfile = createDefaultProfile ''user-0001'' 1"

definition exampleProfile2 :: GenesisProfile where
  "exampleProfile2 =
     exampleProfile
       \<lparr>emotionalFingerprint := [examplePattern],
        resonancePreferences := (resonancePreferences exampleProfile)\<lparr>hapticFeedback := False\<rparr>,
        privacySettings := (privacySettings exampleProfile)\<lparr>retentionDays := 7\<rparr>,
        learningData := (learningData exampleProfile)\<lparr>accuracy := 0.5\<rparr>\<rparr>"

definition exampleImport :: PartialGenesisProfile where
  "exampleImport =
     \<lparr>opt_userId = Some ''intruder'', opt_displayName = Some ''Imported'',
      opt_emotionalFingerprint = None, opt_resonancePreferences = None,
      opt_privacySettings = None, opt_learningData = None,
      opt_createdAt = Some 3, opt_updatedAt = Some 5, opt_version = None\<rparr>"

text \<open>Patterns and queries whose numbers are doubles: dyadic fractions, and decimal
  literals rounded.\<close>

definition dyadicPattern :: EmotionalPattern where
  "dyadicPattern =
     examplePattern
       \<lparr>EmotionalPattern.characteristics :=
          \<lparr>PatternCharacteristics.primary = ''calm'', secondary = None,
           intensityRange = (0.25, 0.75), pressureSensitivity = 0.5, thermalSignature = 0.5,
           pulseCorrelation = None\<rparr>,
        EmotionalPattern.confidence := 0.75\<rparr>"

definition exampleStore :: GenesisProfile where
  "exampleStore =
     exampleProfile
       \<lparr>emotionalFingerprint :=
          [dyadicPattern\<lparr>pattern_id := ''a'', EmotionalPattern.confidence := 0.5\<rparr>,
           dyadicPattern\<lparr>pattern_id := ''b''\<rparr>,
           dyadicPattern\<lparr>pattern_id := ''c'',
                         EmotionalPattern.characteristics :=
                           (EmotionalPattern.characteristics dyadicPattern)
                             \<lparr>pressureSensitivity := roundDouble 0.7\<rparr>\<rparr>,
           dyadicPattern\<lparr>pattern_id := ''d''\<rparr>,
           dyadicPattern\<lparr>pattern_id := ''e'',
                         EmotionalPattern.characteristics :=
                           (EmotionalPattern.characteristics dyadicPattern)
                             \<lparr>pressureSensitivity := 0.75\<rparr>\<rparr>]\<rparr>"

definition exampleQuery :: MatchQuery where
  "exampleQuery =
     \<lparr>MatchQuery.primary = ''calm'', MatchQuery.intensity = 0.75, pressure = 0.5,
      thermal = 0.5\<rparr>"

definition boundaryPattern :: EmotionalPattern where
  "boundaryPattern =
     dyadicPattern
       \<lparr>pattern_id := ''q'',
        EmotionalPattern.characteristics :=
          (EmotionalPattern.characteristics dyadicPattern)\<lparr>pressureSensitivity := 0.25\<rparr>\<rparr>"

definition boundaryStore :: GenesisProfile where
  "boundaryStore = exampleProfile\<lparr>emotionalFingerprint := [boundaryPattern]\<rparr>"

definition boundaryQuery :: MatchQuery where
  "boundaryQuery =
     \<lparr>MatchQuery.primary = ''calm'', MatchQuery.intensity = 0.5,
      pressure = roundDouble 0.05, thermal = 0.5\<rparr>"

definition exampleMeasurements :: "(real \<times> real) list" where
  "exampleMeasurements = (1000, 1) # replicate 100 (2, 1)"

section \<open>Theorems\<close>

lemmas PERFORMANCE_LIMITS =
  MAX_LATENCY_MS_def MIN_SAMPLING_RATE_HZ_def MAX_SAMPLING_RATE_HZ_def
  MAX_MEMORY_USAGE_MB_def MAX_CPU_USAGE_PERCENT_def MIN_CONFIDENCE_THRESHOLD_def
  MAX_CONFIDENCE_THRESHOLD_def

lemmas ERR_defs =
  ERR_SAMPLING_LOW_def ERR_SAMPLING_HIGH_def ERR_PRESSURE_def ERR_CONFIDENCE_LOW_def
  ERR_CONFIDENCE_HIGH_def ERR_LATENCY_def ERR_MEMORY_def

lemmas ERROR_CODE_defs =
  HARDWARE_NOT_SUPPORTED_def EMOTION_DECODER_ERROR_def RESONANCE_ENGINE_ERROR_def
  SENSOR_DISCONNECTED_def LATENCY_EXCEEDED_def MEMORY_LIMIT_EXCEEDED_def

subsection \<open>The stable sort\<close>

lemma set_insertBy: "set (insertBy cmp x xs) = insert x (set xs)"
  by (induction xs) auto

lemma set_sortBy: "set (sortBy cmp xs) = set xs"
  by (induction xs) (simp_all add: sortBy_def set_insertBy)

lemma length_insertBy: "length (insertBy cmp x xs) = Suc (length xs)"
  by (induction xs) simp_all

lemma length_sortBy: "length (sortBy cmp xs) = length xs"
  by (induction xs) (simp_all add: sortBy_def length_insertBy)

lemma sortBy_Nil_iff: "sortBy cmp xs = [] \<longleftrightarrow> xs = []"
  using length_sortBy[of cmp xs] by (metis length_0_conv)

lemma sum_insertBy: "sum_list (map f (insertBy cmp x xs)) = (f x :: real) + sum_list (map f xs)"
  by (induction xs) simp_all

lemma sum_sortBy: "sum_list (map f (sortBy cmp xs)) = (sum_list (map f xs) :: real)"
  by (induction xs) (simp_all add: sortBy_def sum_insertBy)

lemma find_sortBy_member: "find P (sortBy cmp xs) = Some r \<Longrightarrow> r \<in> set xs"
proof -
  assume "find P (sortBy cmp xs) = Some r"
  then have "r \<in> set (sortBy cmp xs)" by (auto simp: find_Some_iff)
  then show ?thesis by (simp add: set_sortBy)
qed

text \<open>With the comparator of \<open>findMatchingPatterns\<close>, \<open>sortBy\<close> is the library's stable
  insertion sort on the key \<open>- confidence\<close>.\<close>

lemma insertBy_byConfidence:
  "insertBy byConfidence x xs = insort_key (\<lambda>p. - EmotionalPattern.confidence p) x xs"
  by (induction xs) (simp_all add: byConfidence_def)

lemma sortBy_byConfidence:
  "sortBy byConfidence xs = sort_key (\<lambda>p. - EmotionalPattern.confidence p) xs"
  by (induction xs) (simp_all add: sortBy_def insertBy_byConfidence)

lemma sortBy_byConfidence_descending:
  "sorted_wrt (\<lambda>a b. EmotionalPattern.confidence a \<ge> EmotionalPattern.confidence b)
     (sortBy byConfidence xs)"
proof -
  have "sorted (map (\<lambda>p. - EmotionalPattern.confidence p)
          (sort_key (\<lambda>p. - EmotionalPattern.confidence p) xs))"
    by (rule sorted_sort_key)
  then show ?thesis by (simp add: sortBy_byConfidence sorted_map)
qed

lemma sortBy_byConfidence_stable:
  "filter (\<lambda>p. EmotionalPattern.confidence p = c) (sortBy byConfidence xs)
     = filter (\<lambda>p. EmotionalPattern.confidence p = c) xs"
  using sort_key_stable[of "\<lambda>p. - EmotionalPattern.confidence p" "- c" xs]
  by (simp add: sortBy_byConfidence)

lemma mset_sortBy_byConfidence: "mset (sortBy byConfidence xs) = mset xs"
  by (simp add: sortBy_byConfidence)

subsection \<open>The resonance mapper\<close>

text \<open>The rules are the entries of the table of the source, key by key.\<close>

lemma resonanceRules_table:
  "map (\<lambda>r. (ruleKey r, ruleAction r)) resonanceRules = RESONANCE_MAPPINGS"
  by (simp add: resonanceRules_def RESONANCE_MAPPINGS_def ruleKey_def)

lemma RESONANCE_MAPPINGS_keys:
  "map fst RESONANCE_MAPPINGS =
     [''joy_calm_LIGHT'', ''love_VERY_LIGHT'', ''focus_determination_MEDIUM'',
      ''concentration_MEDIUM'', ''anger_frustration_HEAVY'', ''anxiety_HEAVY'',
      ''compassion_VERY_LIGHT'', ''gratitude_LIGHT'']"
  by (simp add: RESONANCE_MAPPINGS_def)

lemma ruleAction_in_table:
  assumes "r \<in> set resonanceRules"
  shows "ruleAction r \<in> snd ` set RESONANCE_MAPPINGS"
proof -
  from assms have "(ruleKey r, ruleAction r) \<in> set RESONANCE_MAPPINGS"
    unfolding resonanceRules_table[symmetric] by force
  then show ?thesis by force
qed

text \<open>
  Claim C1. For every pressure (in particular every pressure in \<open>[0, 1]\<close>) and every
  emotional state, whose primary emotion is one of the defined emotion types, the mapper
  returns either an action of the table \<open>RESONANCE_MAPPINGS\<close> or the neutral fallback
  action, which has the mode alteration, the form structured and no characteristics. The
  mapper is a total function: there is no undefined result and no failure.
\<close>

theorem map_resonance_table_or_fallback:
  "(map_resonance st p \<in> snd ` set RESONANCE_MAPPINGS \<or> map_resonance st p = fallbackAction)
   \<and> ResonanceAction.mode fallbackAction = ALTERATION
   \<and> form fallbackAction = STRUCTURED
   \<and> ResonanceAction.characteristics fallbackAction = []"
proof -
  have "map_resonance st p \<in> snd ` set RESONANCE_MAPPINGS \<or> map_resonance st p = fallbackAction"
  proof (cases "find (ruleMatches st p) (sortBy bySpecificity resonanceRules)")
    case None
    then show ?thesis by (simp add: map_resonance_def)
  next
    case (Some r)
    then have "r \<in> set resonanceRules" by (rule find_sortBy_member)
    then have "ruleAction r \<in> snd ` set RESONANCE_MAPPINGS" by (rule ruleAction_in_table)
    with Some show ?thesis by (simp add: map_resonance_def)
  qed
  then show ?thesis by (simp add: fallbackAction_def)
qed

text \<open>
  Claim C8. A pressure of 0.8 is in the band HEAVY, and for a state classified as anger with
  intensity 0.75 (whatever its other fields) the mapper returns at that pressure an action
  with mode \<open>destruction\<close> and form \<open>geometric\<close>.
\<close>

theorem anger_heavy_destruction_geometric:
  "pressureBand 0.8 = Some HEAVY
   \<and> INTERACTION_MODES (ResonanceAction.mode
        (map_resonance (st\<lparr>EmotionalState.primary := ANGER,
                           EmotionalState.intensity := 0.75\<rparr>) 0.8)) = ''destruction''
   \<and> FORM_TYPES (form
        (map_resonance (st\<lparr>EmotionalState.primary := ANGER,
                           EmotionalState.intensity := 0.75\<rparr>) 0.8)) = ''geometric''"
  by (simp add: pressureBand_def map_resonance_def sortBy_def resonanceRules_def
      bySpecificity_def ruleMatches_def)

subsection \<open>The latency window\<close>

lemma foldl_plus: "foldl (\<lambda>a b. a + b) (a::real) xs = a + sum_list xs"
  by (induction xs arbitrary: a) simp_all

lemma updatePerformanceMetrics_samples:
  "latencySamples (performanceMetrics (updatePerformanceMetrics l e s)) =
     (if length (latencySamples (performanceMetrics s) @ [l]) > 100
      then tl (latencySamples (performanceMetrics s) @ [l])
      else latencySamples (performanceMetrics s) @ [l])"
  by (simp add: updatePerformanceMetrics_def emit_def Let_def)

lemma updatePerformanceMetrics_average:
  "averageLatency (performanceMetrics (updatePerformanceMetrics l e s)) =
     sum_list (latencySamples (performanceMetrics (updatePerformanceMetrics l e s)))
       / real (length (latencySamples (performanceMetrics (updatePerformanceMetrics l e s))))"
  by (simp add: updatePerformanceMetrics_def emit_def Let_def foldl_plus)

lemma pushAll_snoc: "pushAll (ms @ [(l, e)]) s = updatePerformanceMetrics l e (pushAll ms s)"
  by (simp add: pushAll_def)

text \<open>One push on a window that holds the last 100 of \<open>xs\<close> gives the last 100 of
  \<open>xs @ [l]\<close>.\<close>

lemma window_step:
  fixes xs :: "real list"
  assumes "ys = drop (length xs - 100) xs"
  shows "(if length (ys @ [l]) > 100 then tl (ys @ [l]) else ys @ [l])
         = drop (length (xs @ [l]) - 100) (xs @ [l])"
proof (cases "length xs < 100")
  case True
  with assms show ?thesis by simp
next
  case False
  define k where "k = length xs - 100"
  have len: "length ys = 100" using assms False by simp
  then have ne: "ys \<noteq> []" by auto
  have full: "100 < length (ys @ [l])" using len by simp
  have 1: "tl (ys @ [l]) = tl ys @ [l]" using ne by simp
  have 2: "tl ys = drop (Suc k) xs" unfolding assms k_def by (simp add: drop_Suc tl_drop)
  have 3: "length (xs @ [l]) - 100 = Suc k" using False by (simp add: k_def)
  have 4: "drop (Suc k) (xs @ [l]) = drop (Suc k) xs @ [l]" using False by (simp add: k_def)
  show ?thesis by (simp only: full if_True 1 2 3 4)
qed

lemma pushAll_samples:
  "latencySamples (performanceMetrics (pushAll ms initialRTI))
     = drop (length ms - 100) (map fst ms)"
proof (induction ms rule: rev_induct)
  case Nil
  then show ?case by (simp add: pushAll_def initialRTI_def)
next
  case (snoc x ms)
  obtain l e where x: "x = (l, e)" by (cases x)
  have ih: "latencySamples (performanceMetrics (pushAll ms initialRTI))
              = drop (length (map fst ms) - 100) (map fst ms)"
    using snoc.IH by simp
  have "latencySamples (performanceMetrics (pushAll (ms @ [x]) initialRTI))
          = drop (length (map fst ms @ [l]) - 100) (map fst ms @ [l])"
    unfolding x pushAll_snoc updatePerformanceMetrics_samples by (rule window_step[OF ih])
  then show ?case by (simp add: x)
qed

lemma pushAll_average:
  "ms \<noteq> [] \<Longrightarrow>
   averageLatency (performanceMetrics (pushAll ms initialRTI)) =
     sum_list (latencySamples (performanceMetrics (pushAll ms initialRTI)))
       / real (length (latencySamples (performanceMetrics (pushAll ms initialRTI))))"
proof (induction ms rule: rev_induct)
  case Nil
  then show ?case by simp
next
  case (snoc x ms)
  obtain l e where x: "x = (l, e)" by (cases x)
  show ?case unfolding x pushAll_snoc by (rule updatePerformanceMetrics_average)
qed

text \<open>
  Claim C2. After any sequence of measurements pushed by \<open>updatePerformanceMetrics\<close> on a new
  instance the latency window has at most 100 entries; after more than 100 measurements it
  holds exactly the most recent 100, in order, and \<open>averageLatency\<close> is the arithmetic mean
  of those 100 alone.
\<close>

theorem latency_window_sliding:
  "length (latencySamples (performanceMetrics (pushAll ms initialRTI))) \<le> 100
   \<and> (100 < length ms \<longrightarrow>
        latencySamples (performanceMetrics (pushAll ms initialRTI))
          = drop (length ms - 100) (map fst ms)
        \<and> length (latencySamples (performanceMetrics (pushAll ms initialRTI))) = 100
        \<and> averageLatency (performanceMetrics (pushAll ms initialRTI))
            = sum_list (drop (length ms - 100) (map fst ms)) / 100)"
proof -
  have a: "length (latencySamples (performanceMetrics (pushAll ms initialRTI))) \<le> 100"
    by (simp add: pushAll_samples)
  have b: "averageLatency (performanceMetrics (pushAll ms initialRTI))
            = sum_list (drop (length ms - 100) (map fst ms)) / 100" if "100 < length ms"
  proof -
    from that have "ms \<noteq> []" by auto
    from pushAll_average[OF this] that show ?thesis by (simp add: pushAll_samples)
  qed
  from a b show ?thesis by (simp add: pushAll_samples)
qed

text \<open>One measurement of 1000 followed by a hundred of 2: the 1000 has left the window and
  the average is 2, not the cumulative mean.\<close>

theorem latency_window_sliding_witness:
  "100 < length exampleMeasurements
   \<and> latencySamples (performanceMetrics (pushAll exampleMeasurements initialRTI))
       = replicate 100 2
   \<and> averageLatency (performanceMetrics (pushAll exampleMeasurements initialRTI)) = 2
   \<and> sum_list (map fst exampleMeasurements) / real (length exampleMeasurements) \<noteq> 2"
  using latency_window_sliding[of exampleMeasurements]
  by (simp add: exampleMeasurements_def sum_list_replicate)

subsection \<open>The mode-usage table\<close>

lemma foldl_count:
  "foldl (\<lambda>sum e. sum + count e) a xs = a + sum_list (map count xs)"
  by (induction xs arbitrary: a) simp_all

lemma count_incrementFirst:
  "\<exists>e \<in> set tm. ModeEntry.mode e = m \<Longrightarrow>
   sum_list (map count (incrementFirst m tm)) = Suc (sum_list (map count tm))"
  by (induction tm) auto

text \<open>The table after the first statement of \<open>updateModeStatistics\<close>.\<close>

lemma updateTopModes_unfold:
  "updateTopModes m tm =
     (let tm1 = (case find (\<lambda>e. ModeEntry.mode e = m) tm of
                   Some existingMode \<Rightarrow> incrementFirst m tm
                 | None \<Rightarrow> tm @ [\<lparr>ModeEntry.mode = m, count = 1, percentage = 0\<rparr>])
      in sortBy byCount
           (map (\<lambda>e. e\<lparr>percentage :=
                          (real (count e) / real (sum_list (map count tm1))) * 100\<rparr>) tm1))"
  by (simp add: updateTopModes_def Let_def foldl_count)

lemma count_after_bump:
  "sum_list (map count
     (case find (\<lambda>e. ModeEntry.mode e = m) tm of
        Some existingMode \<Rightarrow> incrementFirst m tm
      | None \<Rightarrow> tm @ [\<lparr>ModeEntry.mode = m, count = 1, percentage = 0\<rparr>]))
   = Suc (sum_list (map count tm))"
proof (cases "find (\<lambda>e. ModeEntry.mode e = m) tm")
  case None
  then show ?thesis by simp
next
  case (Some e)
  then have "\<exists>e \<in> set tm. ModeEntry.mode e = m"
    by (auto simp: find_Some_iff)
  with Some show ?thesis by (simp add: count_incrementFirst)
qed

lemma sum_percentages:
  "sum_list (map percentage (map (\<lambda>e. e\<lparr>percentage := (real (count e) / t) * 100\<rparr>) xs))
     = real (sum_list (map count xs)) / t * 100"
  by (induction xs) (simp_all add: add_divide_distrib distrib_right)

lemma percentageSum_updateTopModes: "percentageSum (updateTopModes m tm) = 100"
proof -
  define tm1 where
    "tm1 = (case find (\<lambda>e. ModeEntry.mode e = m) tm of
              Some existingMode \<Rightarrow> incrementFirst m tm
            | None \<Rightarrow> tm @ [\<lparr>ModeEntry.mode = m, count = 1, percentage = 0\<rparr>])"
  have total: "sum_list (map count tm1) = Suc (sum_list (map count tm))"
    unfolding tm1_def by (rule count_after_bump)
  then have pos: "real (sum_list (map count tm1)) \<noteq> 0" by simp
  have "percentageSum (updateTopModes m tm)
          = real (sum_list (map count tm1)) / real (sum_list (map count tm1)) * 100"
    unfolding updateTopModes_unfold tm1_def[symmetric] Let_def percentageSum_def sum_sortBy
    by (rule sum_percentages)
  with pos show ?thesis by simp
qed

lemma updateTopModes_not_Nil: "updateTopModes m tm \<noteq> []"
proof
  assume "updateTopModes m tm = []"
  then have "percentageSum (updateTopModes m tm) = 0" by (simp add: percentageSum_def)
  then show False by (simp add: percentageSum_updateTopModes)
qed

text \<open>
  Claim C5. After every call of \<open>updateModeStatistics\<close>, from any state of the table, the
  table is not empty and the percentage fields of its entries sum to 100 (in the exact
  arithmetic of the model, hence within 0.01 of 100). So the invariant "an empty table, or
  percentages that sum to 100" holds from the empty table on and is kept by every update.
\<close>

theorem mode_percentages_sum_to_100:
  "topModes (updateModeStatistics m s) \<noteq> []
   \<and> percentageSum (topModes (updateModeStatistics m s)) = 100
   \<and> \<bar>percentageSum (topModes (updateModeStatistics m s)) - 100\<bar> \<le> 0.01"
  by (simp add: updateModeStatistics_def percentageSum_updateTopModes updateTopModes_not_Nil)

text \<open>An example: creation, destruction, creation on a new instance.\<close>

lemma updateModeStatistics_example:
  "topModes (updateModeStatistics ''creation''
     (updateModeStatistics ''destruction'' (updateModeStatistics ''creation'' initialRTI)))
   = [\<lparr>ModeEntry.mode = ''creation'', count = 2, percentage = 200 / 3\<rparr>,
      \<lparr>ModeEntry.mode = ''destruction'', count = 1, percentage = 100 / 3\<rparr>]"
  by (simp add: updateModeStatistics_def updateTopModes_def initialRTI_def sortBy_def
      byCount_def Let_def)

subsection \<open>Error severity and the status\<close>

text \<open>\<open>includesStr\<close> is the substring relation of the library.\<close>

lemma includesStr_sublist: "includesStr s sub \<longleftrightarrow> sublist sub s"
  by (induction s) (simp_all add: sublist_Cons_right)

lemma listed_codes_without_PERFORMANCE:
  "\<not> includesStr c ''PERFORMANCE''" if "c \<in> set criticalErrors \<union> set highErrors"
  using that by (auto simp: criticalErrors_def highErrors_def ERROR_CODE_defs)

lemma critical_high_disjoint: "set criticalErrors \<inter> set highErrors = {}"
  by (simp add: criticalErrors_def highErrors_def ERROR_CODE_defs)

text \<open>The severity classes: critical and high are the two static sets, medium the codes
  that contain \<open>PERFORMANCE\<close> (none of the six listed codes does), low the rest.\<close>

lemma determineErrorSeverity_classes:
  "(determineErrorSeverity code = Critical \<longleftrightarrow>
        code \<in> {HARDWARE_NOT_SUPPORTED, EMOTION_DECODER_ERROR, RESONANCE_ENGINE_ERROR})
   \<and> (determineErrorSeverity code = High \<longleftrightarrow>
        code \<in> {SENSOR_DISCONNECTED, LATENCY_EXCEEDED, MEMORY_LIMIT_EXCEEDED})
   \<and> (determineErrorSeverity code = Medium \<longleftrightarrow> includesStr code ''PERFORMANCE'')
   \<and> (determineErrorSeverity code = Low \<longleftrightarrow>
        code \<notin> {HARDWARE_NOT_SUPPORTED, EMOTION_DECODER_ERROR, RESONANCE_ENGINE_ERROR}
        \<and> code \<notin> {SENSOR_DISCONNECTED, LATENCY_EXCEEDED, MEMORY_LIMIT_EXCEEDED}
        \<and> \<not> includesStr code ''PERFORMANCE'')"
proof -
  have c: "set criticalErrors
             = {HARDWARE_NOT_SUPPORTED, EMOTION_DECODER_ERROR, RESONANCE_ENGINE_ERROR}"
    by (simp add: criticalErrors_def)
  have h: "set highErrors = {SENSOR_DISCONNECTED, LATENCY_EXCEEDED, MEMORY_LIMIT_EXCEEDED}"
    by (simp add: highErrors_def)
  show ?thesis
    using listed_codes_without_PERFORMANCE[of code] critical_high_disjoint
    unfolding c[symmetric] h[symmetric] determineErrorSeverity_def
    by auto
qed

text \<open>With a listener for \<open>error\<close> on the instance the method returns, and the status is
  Error for a critical code and as before for any other.\<close>

lemma handleError_with_listener:
  assumes "errorListeners s \<noteq> 0"
  shows "\<exists>s'. handleError code message s = Inr s'
           \<and> status s' = (if determineErrorSeverity code = Critical then ERROR else status s)"
  using assms by (simp add: handleError_def emitError_def updateStatus_def emit_def Let_def)

lemma handleError_after_onError:
  "\<exists>s'. handleError code message (onError s) = Inr s'
         \<and> status s' = (if determineErrorSeverity code = Critical then ERROR else status s)"
proof -
  have l: "errorListeners (onError s) \<noteq> 0" by (simp add: onError_def)
  have st: "status (onError s) = status s" by (simp add: onError_def)
  show ?thesis using handleError_with_listener[OF l, of code message] unfolding st .
qed

lemma handleError_without_listener:
  "errorListeners s = 0 \<Longrightarrow> handleError code message s = Inl ERR_UNHANDLED_ERROR"
  by (simp add: handleError_def emitError_def Let_def)

text \<open>
  Claim C7. The claim says that the status becomes Error exactly when a handled error is
  critical, and the comment of the source over the update says the same. The code does not
  do it on an instance without a listener for \<open>error\<close>, which is what the constructor
  builds: \<open>handleError\<close> emits the \<open>error\<close> event first, that \<open>emit\<close> throws, and the update
  of the status is not reached. For the critical code HARDWARE_NOT_SUPPORTED on a new
  instance the method ends with the exception, and so it does for every code and every
  instance without such a listener; the instance is then as before the call.
\<close>

theorem handleError_critical_without_listener:
  "determineErrorSeverity HARDWARE_NOT_SUPPORTED = Critical
   \<and> errorListeners initialRTI = 0
   \<and> status initialRTI = INITIALIZING
   \<and> handleError HARDWARE_NOT_SUPPORTED message initialRTI = Inl ERR_UNHANDLED_ERROR
   \<and> handleError code message (s\<lparr>errorListeners := 0\<rparr>) = Inl ERR_UNHANDLED_ERROR"
proof -
  have "determineErrorSeverity HARDWARE_NOT_SUPPORTED = Critical"
    by (simp add: determineErrorSeverity_def criticalErrors_def)
  moreover have "errorListeners initialRTI = 0 \<and> status initialRTI = INITIALIZING"
    by (simp add: initialRTI_def)
  ultimately show ?thesis by (simp add: handleError_without_listener)
qed

text \<open>Examples: a critical code, a high one, a code with \<open>PERFORMANCE\<close> in it and the code
  the orchestrator uses when a touch cannot be processed.\<close>

lemma determineErrorSeverity_examples:
  "determineErrorSeverity ''EMOTION_DECODER_ERROR'' = Critical
   \<and> determineErrorSeverity ''LATENCY_EXCEEDED'' = High
   \<and> determineErrorSeverity ''LOW_PERFORMANCE_WARNING'' = Medium
   \<and> determineErrorSeverity ''TOUCH_PROCESSING_ERROR'' = Low"
  by (simp add: determineErrorSeverity_def criticalErrors_def highErrors_def ERROR_CODE_defs)

subsection \<open>The genesis profile\<close>

text \<open>The values of the double arithmetic that the examples need.\<close>

lemma scaleFrom_found:
  assumes "2 ^ 52 \<le> a * 2 ^ K" and "a * 2 ^ K < 2 ^ 53" and "k \<le> K" and "K \<le> k + n"
  shows "scaleFrom n k a = K"
  using assms(3,4)
proof (induction n arbitrary: k)
  case 0
  then show ?case by simp
next
  case (Suc n)
  have a0: "0 \<le> a"
  proof (rule ccontr)
    assume "\<not> 0 \<le> a"
    then have "a * 2 ^ K < 0" by (simp add: mult_neg_pos)
    with assms(1) show False by (smt (verit) zero_le_power)
  qed
  show ?case
  proof (cases "k = K")
    case True
    with assms(1) show ?thesis by simp
  next
    case False
    with Suc.prems have lt: "Suc k \<le> K" by simp
    then have "(2::real) ^ Suc k \<le> 2 ^ K" by (intro power_increasing) simp_all
    then have "a * 2 ^ Suc k \<le> a * 2 ^ K" using a0 by (intro mult_left_mono) simp_all
    with assms(2) have "a * 2 ^ k * 2 < 2 ^ 53" by (simp add: mult.assoc)
    then have "a * 2 ^ k < 2 ^ 52" by simp
    moreover have "scaleFrom n (Suc k) a = K" using lt Suc.prems by (intro Suc.IH) simp_all
    ultimately show ?thesis by simp
  qed
qed

lemma binadeScale_eq:
  "2 ^ 52 \<le> a * 2 ^ K \<Longrightarrow> a * 2 ^ K < 2 ^ 53 \<Longrightarrow> K \<le> 1074 \<Longrightarrow> binadeScale a = K"
  unfolding binadeScale_def by (rule scaleFrom_found) simp_all

lemma roundDouble_normal:
  assumes "2 ^ 52 \<le> \<bar>x\<bar> * 2 ^ K" and "\<bar>x\<bar> * 2 ^ K < 2 ^ 53" and "K \<le> 1074"
  shows "roundDouble x = sgn x * of_int (roundHalfEven (\<bar>x\<bar> * 2 ^ K)) / 2 ^ K"
proof -
  have "(1::real) \<le> 2 ^ K" by simp
  then have "\<bar>x\<bar> * 1 \<le> \<bar>x\<bar> * 2 ^ K" by (intro mult_left_mono) simp_all
  with assms(2) have "\<not> \<bar>x\<bar> \<ge> 2 ^ 53" by simp
  then show ?thesis
    by (simp add: roundDouble_def Let_def binadeScale_eq[OF assms])
qed

lemma roundDouble_0: "roundDouble 0 = 0"
  by (simp add: roundDouble_def)

lemma roundHalfEven_int: "roundHalfEven (of_int m) = m"
  by (simp add: roundHalfEven_def)

lemma roundHalfEven_down:
  "of_int m \<le> y \<Longrightarrow> y < of_int m + 1 / 2 \<Longrightarrow> roundHalfEven y = m"
proof -
  assume a: "of_int m \<le> y" "y < of_int m + 1 / 2"
  then have "\<lfloor>y\<rfloor> = m" by (intro floor_unique) simp_all
  with a show ?thesis by (simp add: roundHalfEven_def)
qed

lemma roundHalfEven_up:
  "of_int m + 1 / 2 < y \<Longrightarrow> y < of_int m + 1 \<Longrightarrow> roundHalfEven y = m + 1"
proof -
  assume a: "of_int m + 1 / 2 < y" "y < of_int m + 1"
  then have "\<lfloor>y\<rfloor> = m" by (intro floor_unique) simp_all
  with a show ?thesis by (simp add: roundHalfEven_def)
qed

lemma roundHalfEven_tie_odd:
  "y = of_int m + 1 / 2 \<Longrightarrow> odd m \<Longrightarrow> roundHalfEven y = m + 1"
proof -
  assume a: "y = of_int m + 1 / 2" "odd m"
  then have "\<lfloor>y\<rfloor> = m" by (intro floor_unique) simp_all
  with a show ?thesis by (simp add: roundHalfEven_def)
qed

text \<open>The literals \<open>0.05\<close>, \<open>0.2\<close> and \<open>0.7\<close> as doubles; \<open>0.25\<close> is one.\<close>

lemma roundDouble_005: "roundDouble 0.05 = 7205759403792794 / 2 ^ 57"
proof -
  have r: "roundHalfEven (\<bar>0.05\<bar> * 2 ^ 57) = 7205759403792793 + 1"
    by (rule roundHalfEven_up) simp_all
  have "roundDouble 0.05 = sgn 0.05 * of_int (roundHalfEven (\<bar>0.05\<bar> * 2 ^ 57)) / 2 ^ 57"
    by (rule roundDouble_normal) simp_all
  then show ?thesis unfolding r by simp
qed

lemma PROXIMITY_value: "PROXIMITY = 7205759403792794 / 2 ^ 55"
proof -
  have r: "roundHalfEven (\<bar>0.2\<bar> * 2 ^ 55) = 7205759403792793 + 1"
    by (rule roundHalfEven_up) simp_all
  have "roundDouble 0.2 = sgn 0.2 * of_int (roundHalfEven (\<bar>0.2\<bar> * 2 ^ 55)) / 2 ^ 55"
    by (rule roundDouble_normal) simp_all
  then show ?thesis unfolding r PROXIMITY_def by simp
qed

lemma roundDouble_07: "roundDouble 0.7 = 6305039478318694 / 2 ^ 53"
proof -
  have r: "roundHalfEven (\<bar>0.7\<bar> * 2 ^ 53) = 6305039478318694"
    by (rule roundHalfEven_down) simp_all
  have "roundDouble 0.7 = sgn 0.7 * of_int (roundHalfEven (\<bar>0.7\<bar> * 2 ^ 53)) / 2 ^ 53"
    by (rule roundDouble_normal) simp_all
  then show ?thesis unfolding r by simp
qed

lemma roundDouble_025: "roundDouble 0.25 = 0.25"
proof -
  have e: "\<bar>0.25\<bar> * 2 ^ 54 = real_of_int 4503599627370496" by simp
  have r: "roundHalfEven (\<bar>0.25\<bar> * 2 ^ 54) = 4503599627370496"
    unfolding e by (rule roundHalfEven_int)
  have "roundDouble 0.25 = sgn 0.25 * of_int (roundHalfEven (\<bar>0.25\<bar> * 2 ^ 54)) / 2 ^ 54"
    by (rule roundDouble_normal) simp_all
  then show ?thesis unfolding r by simp
qed

text \<open>\<open>0.25 - 0.05\<close> is half way between two doubles and rounds to the even one, which is
  the double of \<open>0.2\<close>; \<open>0.7 - 0.5\<close> is a double, two steps below it.\<close>

lemma dsub_025_005: "dsub 0.25 (roundDouble 0.05) = PROXIMITY"
proof -
  define x :: real where "x = 0.25 - 7205759403792794 / 2 ^ 57"
  have xv: "x = 28823037615171174 / 2 ^ 57" by (simp add: x_def)
  have r: "roundHalfEven (\<bar>x\<bar> * 2 ^ 55) = 7205759403792793 + 1"
    by (rule roundHalfEven_tie_odd) (simp_all add: xv)
  have "roundDouble x = sgn x * of_int (roundHalfEven (\<bar>x\<bar> * 2 ^ 55)) / 2 ^ 55"
    by (rule roundDouble_normal) (simp_all add: xv)
  then have v: "roundDouble x = 7205759403792794 / 2 ^ 55" unfolding r by (simp add: xv)
  have "dsub 0.25 (roundDouble 0.05) = roundDouble x"
    unfolding dsub_def roundDouble_005 x_def by (rule refl)
  also have "\<dots> = PROXIMITY" unfolding v PROXIMITY_value by (rule refl)
  finally show ?thesis .
qed

lemma dsub_07_05: "dsub (roundDouble 0.7) 0.5 = 7205759403792792 / 2 ^ 55"
proof -
  define x :: real where "x = 6305039478318694 / 2 ^ 53 - 0.5"
  have xv: "x = 7205759403792792 / 2 ^ 55" by (simp add: x_def)
  have e: "\<bar>x\<bar> * 2 ^ 55 = of_int 7205759403792792" by (simp add: xv)
  have r: "roundHalfEven (\<bar>x\<bar> * 2 ^ 55) = 7205759403792792"
    unfolding e by (rule roundHalfEven_int)
  have "roundDouble x = sgn x * of_int (roundHalfEven (\<bar>x\<bar> * 2 ^ 55)) / 2 ^ 55"
    by (rule roundDouble_normal) (simp_all add: xv)
  then have v: "roundDouble x = 7205759403792792 / 2 ^ 55" unfolding r by (simp add: xv)
  have "dsub (roundDouble 0.7) 0.5 = roundDouble x"
    unfolding dsub_def roundDouble_07 x_def by (rule refl)
  then show ?thesis unfolding v .
qed

lemma dsub_same: "dsub a a = 0"
  by (simp add: dsub_def roundDouble_0)

lemma dsub_075_05: "dsub 0.75 0.5 = 0.25"
proof -
  have e: "(0.75::real) - 0.5 = 0.25" by simp
  show ?thesis unfolding dsub_def e by (rule roundDouble_025)
qed

text \<open>The same values, with the fractions in lowest terms.\<close>

lemma roundDouble_005_fraction: "roundDouble (1 / 20) = 7205759403792794 / 2 ^ 57"
  using roundDouble_005 by simp

lemma dsub_025_005_fraction: "dsub (1 / 4) (roundDouble (1 / 20)) = PROXIMITY"
  using dsub_025_005 by simp

lemma dsub_07_05_fraction: "dsub (roundDouble (7 / 10)) (1 / 2) = 7205759403792792 / 2 ^ 55"
  using dsub_07_05 by simp

lemma dsub_075_05_fraction: "dsub (3 / 4) (1 / 2) = 1 / 4"
  using dsub_075_05 by simp

text \<open>
  Claim C3, as the code has it. \<open>findMatchingPatterns\<close> leaves the profile, and so the stored
  fingerprint, as it was. Its result holds exactly the stored patterns that match the query,
  each as often as it is stored; it is in descending order of confidence; patterns of equal
  confidence keep their order in the store; and a second call on the store it leaves gives
  the same list. A pattern matches when its primary emotion is the primary of the query, the
  intensity of the query is in its intensity range, both ends included, and the differences
  of its pressure sensitivity and its thermal signature from the pressure and the thermal
  value of the query, each rounded to a double as the code computes it, are smaller in
  magnitude than the double of 0.2.
\<close>

theorem findMatchingPatterns_filter_sorted_stable:
  "fst (findMatchingPatterns p q) = p
   \<and> mset (snd (findMatchingPatterns p q))
       = filter_mset (matchesPattern q) (mset (emotionalFingerprint p))
   \<and> sorted_wrt (\<lambda>a b. EmotionalPattern.confidence a \<ge> EmotionalPattern.confidence b)
        (snd (findMatchingPatterns p q))
   \<and> (\<forall>c. filter (\<lambda>x. EmotionalPattern.confidence x = c) (snd (findMatchingPatterns p q))
          = filter (\<lambda>x. EmotionalPattern.confidence x = c \<and> matchesPattern q x)
              (emotionalFingerprint p))
   \<and> snd (findMatchingPatterns (fst (findMatchingPatterns p q)) q)
       = snd (findMatchingPatterns p q)
   \<and> (matchesPattern q x \<longleftrightarrow>
        PatternCharacteristics.primary (EmotionalPattern.characteristics x) = MatchQuery.primary q
        \<and> fst (intensityRange (EmotionalPattern.characteristics x)) \<le> MatchQuery.intensity q
        \<and> MatchQuery.intensity q \<le> snd (intensityRange (EmotionalPattern.characteristics x))
        \<and> \<bar>dsub (pressureSensitivity (EmotionalPattern.characteristics x))
                (MatchQuery.pressure q)\<bar> < PROXIMITY
        \<and> \<bar>dsub (thermalSignature (EmotionalPattern.characteristics x))
                (MatchQuery.thermal q)\<bar> < PROXIMITY)
   \<and> PROXIMITY = roundDouble 0.2"
proof -
  have unfolded:
    "matchesPattern q x \<longleftrightarrow>
       PatternCharacteristics.primary (EmotionalPattern.characteristics x) = MatchQuery.primary q
       \<and> fst (intensityRange (EmotionalPattern.characteristics x)) \<le> MatchQuery.intensity q
       \<and> MatchQuery.intensity q \<le> snd (intensityRange (EmotionalPattern.characteristics x))
       \<and> \<bar>dsub (pressureSensitivity (EmotionalPattern.characteristics x))
               (MatchQuery.pressure q)\<bar> < PROXIMITY
       \<and> \<bar>dsub (thermalSignature (EmotionalPattern.characteristics x))
               (MatchQuery.thermal q)\<bar> < PROXIMITY"
    by (simp add: matchesPattern_def Let_def)
  have rest:
    "fst (findMatchingPatterns p q) = p
     \<and> mset (snd (findMatchingPatterns p q))
         = filter_mset (matchesPattern q) (mset (emotionalFingerprint p))
     \<and> sorted_wrt (\<lambda>a b. EmotionalPattern.confidence a \<ge> EmotionalPattern.confidence b)
          (snd (findMatchingPatterns p q))
     \<and> (\<forall>c. filter (\<lambda>x. EmotionalPattern.confidence x = c) (snd (findMatchingPatterns p q))
            = filter (\<lambda>x. EmotionalPattern.confidence x = c \<and> matchesPattern q x)
                (emotionalFingerprint p))
     \<and> snd (findMatchingPatterns (fst (findMatchingPatterns p q)) q)
         = snd (findMatchingPatterns p q)"
    by (simp add: findMatchingPatterns_def mset_sortBy_byConfidence
        sortBy_byConfidence_descending sortBy_byConfidence_stable conj_commute)
  from rest unfolded show ?thesis by (simp add: PROXIMITY_def)
qed

text \<open>
  The claim as it is written fails next to the distance 0.2. The stored pattern of the
  example has the pressure sensitivity 0.25 and the query the pressure 0.05; primary,
  intensity and thermal value match. The two doubles are less than 0.2 apart, so the pattern
  lies within the proximity of the claim; but their difference rounds to the double of 0.2,
  the test \<open>< 0.2\<close> of the code fails, and the result is empty.
\<close>

theorem findMatchingPatterns_boundary_counterexample:
  "boundaryPattern \<in> set (emotionalFingerprint boundaryStore)
   \<and> PatternCharacteristics.primary (EmotionalPattern.characteristics boundaryPattern)
       = MatchQuery.primary boundaryQuery
   \<and> fst (intensityRange (EmotionalPattern.characteristics boundaryPattern))
       \<le> MatchQuery.intensity boundaryQuery
   \<and> MatchQuery.intensity boundaryQuery
       \<le> snd (intensityRange (EmotionalPattern.characteristics boundaryPattern))
   \<and> \<bar>pressureSensitivity (EmotionalPattern.characteristics boundaryPattern)
        - MatchQuery.pressure boundaryQuery\<bar> < 0.2
   \<and> \<bar>thermalSignature (EmotionalPattern.characteristics boundaryPattern)
        - MatchQuery.thermal boundaryQuery\<bar> < 0.2
   \<and> snd (findMatchingPatterns boundaryStore boundaryQuery) = []"
proof -
  have near:
    "\<bar>pressureSensitivity (EmotionalPattern.characteristics boundaryPattern)
        - MatchQuery.pressure boundaryQuery\<bar> < 0.2"
    by (simp add: boundaryPattern_def boundaryQuery_def dyadicPattern_def
        roundDouble_005_fraction)
  have "dsub (pressureSensitivity (EmotionalPattern.characteristics boundaryPattern))
          (MatchQuery.pressure boundaryQuery) = PROXIMITY"
    by (simp add: boundaryPattern_def boundaryQuery_def dyadicPattern_def
        dsub_025_005_fraction)
  moreover have "0 \<le> PROXIMITY" by (simp add: PROXIMITY_value)
  ultimately have fails: "\<not> matchesPattern boundaryQuery boundaryPattern"
    by (simp add: matchesPattern_def Let_def)
  then have "snd (findMatchingPatterns boundaryStore boundaryQuery) = []"
    by (simp add: findMatchingPatterns_def boundaryStore_def sortBy_def)
  with near show ?thesis
    by (simp add: boundaryStore_def boundaryPattern_def boundaryQuery_def dyadicPattern_def)
qed

text \<open>
  An example with the probe 0.5 that \<open>getPersonalizedResonance\<close> uses. The pattern \<open>c\<close>, with
  the pressure sensitivity 0.7, matches: the double of 0.7 is less than 0.2 above 0.5. The
  pattern \<open>e\<close>, at 0.75, does not. \<open>b\<close>, \<open>c\<close> and \<open>d\<close> have the same confidence and keep
  their order; \<open>a\<close>, stored first, has the lowest confidence and comes last. The query
  intensity 0.75 is the upper end of the range of the patterns.
\<close>

lemma findMatchingPatterns_example:
  "map pattern_id (snd (findMatchingPatterns exampleStore exampleQuery))
     = [''b'', ''c'', ''d'', ''a'']"
  by (simp add: findMatchingPatterns_def exampleStore_def exampleQuery_def dyadicPattern_def
      examplePattern_def matchesPattern_def sortBy_def byConfidence_def Let_def
      dsub_same dsub_07_05_fraction dsub_075_05_fraction PROXIMITY_value)

lemma exportProfile_public:
  "\<not> sharePatterns (privacySettings p) \<Longrightarrow> \<not> sharePreferences (privacySettings p) \<Longrightarrow>
   exportProfile p False =
     \<lparr>opt_userId = Some (userId p), opt_displayName = Some (displayName p),
      opt_emotionalFingerprint = None, opt_resonancePreferences = None,
      opt_privacySettings = None, opt_learningData = None,
      opt_createdAt = Some (GenesisProfile.createdAt p), opt_updatedAt = Some (updatedAt p),
      opt_version = Some (version p)\<rparr>"
  by (simp add: exportProfile_def)

lemma exportProfile_private:
  "exportProfile p True =
     \<lparr>opt_userId = Some (userId p), opt_displayName = Some (displayName p),
      opt_emotionalFingerprint = Some (emotionalFingerprint p),
      opt_resonancePreferences = Some (resonancePreferences p),
      opt_privacySettings = Some (privacySettings p),
      opt_learningData = Some (learningData p),
      opt_createdAt = Some (GenesisProfile.createdAt p), opt_updatedAt = Some (updatedAt p),
      opt_version = Some (version p)\<rparr>"
  by (simp add: exportProfile_def)

text \<open>
  Claim C6. For a profile with \<open>sharePatterns = false\<close> and \<open>sharePreferences = false\<close>,
  \<open>exportProfile(false)\<close> has the user id, the display name, the version and the two
  timestamps and none of the patterns, preferences, privacy settings and learning data; so
  two such profiles that agree on those five fields have equal exports, whatever their
  patterns, preferences, other privacy settings and learning data are.
  \<open>exportProfile(true)\<close> has every field of the profile, the privacy settings and the
  learning data included.
\<close>

theorem exportProfile_hides_private_data:
  "(\<not> sharePatterns (privacySettings p) \<and> \<not> sharePreferences (privacySettings p) \<longrightarrow>
      exportProfile p False =
        \<lparr>opt_userId = Some (userId p), opt_displayName = Some (displayName p),
         opt_emotionalFingerprint = None, opt_resonancePreferences = None,
         opt_privacySettings = None, opt_learningData = None,
         opt_createdAt = Some (GenesisProfile.createdAt p), opt_updatedAt = Some (updatedAt p),
         opt_version = Some (version p)\<rparr>)
   \<and> (\<not> sharePatterns (privacySettings p) \<and> \<not> sharePreferences (privacySettings p)
        \<and> \<not> sharePatterns (privacySettings q) \<and> \<not> sharePreferences (privacySettings q)
        \<and> userId p = userId q \<and> displayName p = displayName q \<and> version p = version q
        \<and> GenesisProfile.createdAt p = GenesisProfile.createdAt q
        \<and> updatedAt p = updatedAt q \<longrightarrow>
      exportProfile p False = exportProfile q False)
   \<and> exportProfile p True =
        \<lparr>opt_userId = Some (userId p), opt_displayName = Some (displayName p),
         opt_emotionalFingerprint = Some (emotionalFingerprint p),
         opt_resonancePreferences = Some (resonancePreferences p),
         opt_privacySettings = Some (privacySettings p),
         opt_learningData = Some (learningData p),
         opt_createdAt = Some (GenesisProfile.createdAt p), opt_updatedAt = Some (updatedAt p),
         opt_version = Some (version p)\<rparr>"
  by (simp add: exportProfile_public exportProfile_private)

text \<open>Two profiles that differ in their patterns, preferences, privacy settings and learning
  data, and have the same export.\<close>

theorem exportProfile_hides_private_data_witness:
  "emotionalFingerprint exampleProfile \<noteq> emotionalFingerprint exampleProfile2
   \<and> resonancePreferences exampleProfile \<noteq> resonancePreferences exampleProfile2
   \<and> privacySettings exampleProfile \<noteq> privacySettings exampleProfile2
   \<and> learningData exampleProfile \<noteq> learningData exampleProfile2
   \<and> exportProfile exampleProfile False = exportProfile exampleProfile2 False
   \<and> opt_emotionalFingerprint (exportProfile exampleProfile False) = None
   \<and> opt_learningData (exportProfile exampleProfile2 True) = Some (learningData exampleProfile2)"
proof -
  have differ:
    "emotionalFingerprint exampleProfile \<noteq> emotionalFingerprint exampleProfile2
     \<and> resonancePreferences exampleProfile \<noteq> resonancePreferences exampleProfile2
     \<and> privacySettings exampleProfile \<noteq> privacySettings exampleProfile2
     \<and> learningData exampleProfile \<noteq> learningData exampleProfile2"
    by (simp add: exampleProfile2_def exampleProfile_def createDefaultProfile_def)
  have hyps:
    "\<not> sharePatterns (privacySettings exampleProfile)
     \<and> \<not> sharePreferences (privacySettings exampleProfile)
     \<and> \<not> sharePatterns (privacySettings exampleProfile2)
     \<and> \<not> sharePreferences (privacySettings exampleProfile2)
     \<and> userId exampleProfile = userId exampleProfile2
     \<and> displayName exampleProfile = displayName exampleProfile2
     \<and> version exampleProfile = version exampleProfile2
     \<and> GenesisProfile.createdAt exampleProfile = GenesisProfile.createdAt exampleProfile2
     \<and> updatedAt exampleProfile = updatedAt exampleProfile2"
    by (simp add: exampleProfile2_def exampleProfile_def createDefaultProfile_def)
  have eq: "exportProfile exampleProfile False = exportProfile exampleProfile2 False"
    using exportProfile_hides_private_data[of exampleProfile exampleProfile2] hyps by blast
  have "exportProfile exampleProfile False =
        \<lparr>opt_userId = Some (userId exampleProfile),
         opt_displayName = Some (displayName exampleProfile),
         opt_emotionalFingerprint = None, opt_resonancePreferences = None,
         opt_privacySettings = None, opt_learningData = None,
         opt_createdAt = Some (GenesisProfile.createdAt exampleProfile),
         opt_updatedAt = Some (updatedAt exampleProfile),
         opt_version = Some (version exampleProfile)\<rparr>"
    using exportProfile_hides_private_data[of exampleProfile exampleProfile2] hyps by blast
  then have none: "opt_emotionalFingerprint (exportProfile exampleProfile False) = None"
    by simp
  have "opt_learningData (exportProfile exampleProfile2 True)
          = Some (learningData exampleProfile2)"
    using exportProfile_hides_private_data[of exampleProfile2 exampleProfile] by simp
  with differ eq none show ?thesis by simp
qed

text \<open>
  Claim C9, as the code has it. \<open>importProfile(data, merge = true)\<close> keeps the user id and
  the creation time of the profile, whatever \<open>data\<close> holds for them, and takes the display
  name, the fingerprint, the preferences, the privacy settings, the learning data and the
  version from \<open>data\<close> where \<open>data\<close> has them and from the profile where it has not. The
  field \<open>updatedAt\<close> is not overlaid: the \<open>saveProfile\<close> that ends the method sets it to
  the time of the save.
\<close>

theorem importProfile_merge_frame:
  "userId (importProfile p d True now saved) = userId p
   \<and> GenesisProfile.createdAt (importProfile p d True now saved) = GenesisProfile.createdAt p
   \<and> displayName (importProfile p d True now saved) = spread (displayName p) (opt_displayName d)
   \<and> emotionalFingerprint (importProfile p d True now saved)
       = spread (emotionalFingerprint p) (opt_emotionalFingerprint d)
   \<and> resonancePreferences (importProfile p d True now saved)
       = spread (resonancePreferences p) (opt_resonancePreferences d)
   \<and> privacySettings (importProfile p d True now saved)
       = spread (privacySettings p) (opt_privacySettings d)
   \<and> learningData (importProfile p d True now saved)
       = spread (learningData p) (opt_learningData d)
   \<and> version (importProfile p d True now saved) = spread (version p) (opt_version d)
   \<and> updatedAt (importProfile p d True now saved) = saved"
  by (simp add: importProfile_def overlay_def saveProfile_def)

text \<open>
  The claim as it is written fails for the top-level field \<open>updatedAt\<close>: the data of the
  example has \<open>updatedAt = 5\<close>, and after the import, saved at time 9, the profile has
  \<open>updatedAt = 9\<close>, which is not the overlay of \<open>data\<close> on the profile.
\<close>

theorem importProfile_merge_updatedAt_counterexample:
  "opt_updatedAt exampleImport = Some 5
   \<and> updatedAt (importProfile exampleProfile exampleImport True 8 9) = 9
   \<and> updatedAt (importProfile exampleProfile exampleImport True 8 9)
       \<noteq> spread (updatedAt exampleProfile) (opt_updatedAt exampleImport)"
  by (simp add: importProfile_def overlay_def saveProfile_def spread_def exampleImport_def)

subsection \<open>Configuration\<close>

lemma set_pushIf: "set (pushIf c m es) = (if c then insert m (set es) else set es)"
  by (simp add: pushIf_def)

lemma set_validationErrors:
  "set (validationErrors c) =
     (if samplingRate (hardware c) < MIN_SAMPLING_RATE_HZ then {ERR_SAMPLING_LOW} else {})
   \<union> (if samplingRate (hardware c) > MAX_SAMPLING_RATE_HZ then {ERR_SAMPLING_HIGH} else {})
   \<union> (if HardwareConfig.pressureSensitivity (hardware c) < 0
          \<or> HardwareConfig.pressureSensitivity (hardware c) > 1 then {ERR_PRESSURE} else {})
   \<union> (if confidenceThreshold (software c) < MIN_CONFIDENCE_THRESHOLD
        then {ERR_CONFIDENCE_LOW} else {})
   \<union> (if confidenceThreshold (software c) > MAX_CONFIDENCE_THRESHOLD
        then {ERR_CONFIDENCE_HIGH} else {})
   \<union> (if maxLatency (performance c) > MAX_LATENCY_MS then {ERR_LATENCY} else {})
   \<union> (if memoryLimit (performance c) > MAX_MEMORY_USAGE_MB then {ERR_MEMORY} else {})"
  unfolding validationErrors_def Let_def set_pushIf by auto

lemma errors_validateConfig: "errors (validateConfig c) = validationErrors c"
  by (simp add: validateConfig_def Let_def)

lemma valid_validateConfig: "valid (validateConfig c) = (errors (validateConfig c) = [])"
  by (simp add: validateConfig_def Let_def)

lemma distinct_messages:
  "distinct [ERR_SAMPLING_LOW, ERR_SAMPLING_HIGH, ERR_PRESSURE, ERR_CONFIDENCE_LOW,
     ERR_CONFIDENCE_HIGH, ERR_LATENCY, ERR_MEMORY]"
  by (simp add: ERR_defs)

lemma reports_sampling_low:
  "ERR_SAMPLING_LOW \<in> set (validationErrors c)
     \<longleftrightarrow> samplingRate (hardware c) < MIN_SAMPLING_RATE_HZ"
  using distinct_messages unfolding set_validationErrors by (auto split: if_splits)

lemma reports_sampling_high:
  "ERR_SAMPLING_HIGH \<in> set (validationErrors c)
     \<longleftrightarrow> samplingRate (hardware c) > MAX_SAMPLING_RATE_HZ"
  using distinct_messages unfolding set_validationErrors by (auto split: if_splits)

lemma reports_pressure:
  "ERR_PRESSURE \<in> set (validationErrors c)
     \<longleftrightarrow> HardwareConfig.pressureSensitivity (hardware c) < 0
         \<or> HardwareConfig.pressureSensitivity (hardware c) > 1"
  using distinct_messages unfolding set_validationErrors by (auto split: if_splits)

lemma reports_confidence_low:
  "ERR_CONFIDENCE_LOW \<in> set (validationErrors c)
     \<longleftrightarrow> confidenceThreshold (software c) < MIN_CONFIDENCE_THRESHOLD"
  using distinct_messages unfolding set_validationErrors by (auto split: if_splits)

lemma reports_confidence_high:
  "ERR_CONFIDENCE_HIGH \<in> set (validationErrors c)
     \<longleftrightarrow> confidenceThreshold (software c) > MAX_CONFIDENCE_THRESHOLD"
  using distinct_messages unfolding set_validationErrors by (auto split: if_splits)

lemma reports_latency:
  "ERR_LATENCY \<in> set (validationErrors c) \<longleftrightarrow> maxLatency (performance c) > MAX_LATENCY_MS"
  using distinct_messages unfolding set_validationErrors by (auto split: if_splits)

lemma reports_memory:
  "ERR_MEMORY \<in> set (validationErrors c)
     \<longleftrightarrow> memoryLimit (performance c) > MAX_MEMORY_USAGE_MB"
  using distinct_messages unfolding set_validationErrors by (auto split: if_splits)

text \<open>
  Claim C4. \<open>validateConfig\<close> reports every violated constraint: each of its seven messages
  is in the errors list exactly when its constraint is violated, whatever the other
  constraints are. Any configuration given a sampling rate of 50 Hz and a confidence
  threshold of 0.99 has both violations, two different messages, in the list. The flag
  \<open>valid\<close> is true exactly when the list is empty.
\<close>

theorem validateConfig_collects_all_violations:
  "valid (validateConfig c) = (errors (validateConfig c) = [])
   \<and> (ERR_SAMPLING_LOW \<in> set (errors (validateConfig c))
        \<longleftrightarrow> samplingRate (hardware c) < MIN_SAMPLING_RATE_HZ)
   \<and> (ERR_SAMPLING_HIGH \<in> set (errors (validateConfig c))
        \<longleftrightarrow> samplingRate (hardware c) > MAX_SAMPLING_RATE_HZ)
   \<and> (ERR_PRESSURE \<in> set (errors (validateConfig c))
        \<longleftrightarrow> HardwareConfig.pressureSensitivity (hardware c) < 0
            \<or> HardwareConfig.pressureSensitivity (hardware c) > 1)
   \<and> (ERR_CONFIDENCE_LOW \<in> set (errors (validateConfig c))
        \<longleftrightarrow> confidenceThreshold (software c) < MIN_CONFIDENCE_THRESHOLD)
   \<and> (ERR_CONFIDENCE_HIGH \<in> set (errors (validateConfig c))
        \<longleftrightarrow> confidenceThreshold (software c) > MAX_CONFIDENCE_THRESHOLD)
   \<and> (ERR_LATENCY \<in> set (errors (validateConfig c))
        \<longleftrightarrow> maxLatency (performance c) > MAX_LATENCY_MS)
   \<and> (ERR_MEMORY \<in> set (errors (validateConfig c))
        \<longleftrightarrow> memoryLimit (performance c) > MAX_MEMORY_USAGE_MB)
   \<and> ERR_SAMPLING_LOW \<in> set (errors (validateConfig
         (c\<lparr>hardware := (hardware c)\<lparr>samplingRate := 50\<rparr>,
            software := (software c)\<lparr>confidenceThreshold := 0.99\<rparr>\<rparr>)))
   \<and> ERR_CONFIDENCE_HIGH \<in> set (errors (validateConfig
         (c\<lparr>hardware := (hardware c)\<lparr>samplingRate := 50\<rparr>,
            software := (software c)\<lparr>confidenceThreshold := 0.99\<rparr>\<rparr>)))
   \<and> ERR_SAMPLING_LOW \<noteq> ERR_CONFIDENCE_HIGH"
  unfolding errors_validateConfig reports_sampling_low reports_sampling_high reports_pressure
    reports_confidence_low reports_confidence_high reports_latency reports_memory
  by (simp add: valid_validateConfig errors_validateConfig PERFORMANCE_LIMITS ERR_defs)

text \<open>The default configuration is valid; with the two values of the claim its errors are
  the two messages, in the order of the checks.\<close>

lemma validateConfig_examples:
  "validateConfig DEFAULT_CONFIG = \<lparr>valid = True, errors = []\<rparr>
   \<and> validateConfig
        (DEFAULT_CONFIG\<lparr>hardware := (hardware DEFAULT_CONFIG)\<lparr>samplingRate := 50\<rparr>,
                        software := (software DEFAULT_CONFIG)\<lparr>confidenceThreshold := 0.99\<rparr>\<rparr>)
       = \<lparr>valid = False, errors = [ERR_SAMPLING_LOW, ERR_CONFIDENCE_HIGH]\<rparr>"
  by (simp add: validateConfig_def validationErrors_def pushIf_def DEFAULT_CONFIG_def
      PERFORMANCE_LIMITS Let_def)

lemma mergeConfig_None: "mergeConfig base None = base"
  by (simp add: mergeConfig_def)

lemma hardware_mergeConfig:
  "hardware (mergeConfig base (Some ov))
     = (case opt_hardware ov of None \<Rightarrow> hardware base
        | Some h \<Rightarrow> mergeHardware (hardware base) h)"
  by (simp add: mergeConfig_def Let_def split: option.splits)

lemma software_mergeConfig:
  "software (mergeConfig base (Some ov))
     = (case opt_software ov of None \<Rightarrow> software base
        | Some h \<Rightarrow> mergeSoftware (software base) h)"
  by (simp add: mergeConfig_def Let_def split: option.splits)

lemma privacy_mergeConfig:
  "privacy (mergeConfig base (Some ov))
     = (case opt_privacy ov of None \<Rightarrow> privacy base
        | Some h \<Rightarrow> mergePrivacy (privacy base) h)"
  by (simp add: mergeConfig_def Let_def split: option.splits)

lemma performance_mergeConfig:
  "performance (mergeConfig base (Some ov))
     = (case opt_performance ov of None \<Rightarrow> performance base
        | Some h \<Rightarrow> mergePerformance (performance base) h)"
  by (simp add: mergeConfig_def Let_def split: option.splits)

text \<open>
  Claim C10. \<open>mergeConfig\<close> merges each of the four sections shallowly: every field of the
  result is the value of the override when the override supplies the section and the field,
  and the value of the base otherwise. With no override the result is the base.
\<close>

theorem mergeConfig_shallow_per_section:
  "mergeConfig base None = base
   \<and> sensors (hardware (mergeConfig base (Some ov)))
       = overridden (opt_hardware ov) opt_sensors (sensors (hardware base))
   \<and> inputSurface (hardware (mergeConfig base (Some ov)))
       = overridden (opt_hardware ov) opt_inputSurface (inputSurface (hardware base))
   \<and> HardwareConfig.pressureSensitivity (hardware (mergeConfig base (Some ov)))
       = overridden (opt_hardware ov) opt_pressureSensitivity
           (HardwareConfig.pressureSensitivity (hardware base))
   \<and> samplingRate (hardware (mergeConfig base (Some ov)))
       = overridden (opt_hardware ov) opt_samplingRate (samplingRate (hardware base))
   \<and> emotionDecoder (software (mergeConfig base (Some ov)))
       = overridden (opt_software ov) opt_emotionDecoder (emotionDecoder (software base))
   \<and> resonanceEngine (software (mergeConfig base (Some ov)))
       = overridden (opt_software ov) opt_resonanceEngine (resonanceEngine (software base))
   \<and> realTimeProcessing (software (mergeConfig base (Some ov)))
       = overridden (opt_software ov) opt_realTimeProcessing
           (realTimeProcessing (software base))
   \<and> confidenceThreshold (software (mergeConfig base (Some ov)))
       = overridden (opt_software ov) opt_confidenceThreshold
           (confidenceThreshold (software base))
   \<and> PrivacySection.localProcessingOnly (privacy (mergeConfig base (Some ov)))
       = overridden (opt_privacy ov) opt_localProcessingOnly
           (PrivacySection.localProcessingOnly (privacy base))
   \<and> PrivacySection.encryptData (privacy (mergeConfig base (Some ov)))
       = overridden (opt_privacy ov) opt_encryptData (PrivacySection.encryptData (privacy base))
   \<and> dataRetentionDays (privacy (mergeConfig base (Some ov)))
       = overridden (opt_privacy ov) opt_dataRetentionDays (dataRetentionDays (privacy base))
   \<and> PrivacySection.allowAnonymousSharing (privacy (mergeConfig base (Some ov)))
       = overridden (opt_privacy ov) opt_allowAnonymousSharing
           (PrivacySection.allowAnonymousSharing (privacy base))
   \<and> maxLatency (performance (mergeConfig base (Some ov)))
       = overridden (opt_performance ov) opt_maxLatency (maxLatency (performance base))
   \<and> enableCaching (performance (mergeConfig base (Some ov)))
       = overridden (opt_performance ov) opt_enableCaching (enableCaching (performance base))
   \<and> memoryLimit (performance (mergeConfig base (Some ov)))
       = overridden (opt_performance ov) opt_memoryLimit (memoryLimit (performance base))
   \<and> adaptiveLearning (performance (mergeConfig base (Some ov)))
       = overridden (opt_performance ov) opt_adaptiveLearning
           (adaptiveLearning (performance base))"
  by (simp add: mergeConfig_None hardware_mergeConfig software_mergeConfig privacy_mergeConfig
      performance_mergeConfig overridden_def spread_def mergeHardware_def mergeSoftware_def
      mergePrivacy_def mergePerformance_def split: option.splits)

end
